(* ===== verification/Prelude.thy ===== *)
theory Prelude
  imports Main "HOL-Library.Word"
begin

text \<open>
  Shared vocabulary of the model of \<open>src/js/oxid_webgl.js\<close>: the machine types that cross
  the WebAssembly/JavaScript boundary, JavaScript strings, the exceptions the bridge can
  throw, and a small exception-and-state monad in which every entry point of the bridge is
  written. A computation \<open>('s, 'a) jsm\<close> takes the state and returns either a thrown
  exception (\<open>Inl\<close>) or a value (\<open>Inr\<close>) together with the new state: a JavaScript
  exception does not undo the assignments made before it, so the state is returned on both
  branches. \<open>pres R m\<close> says that every run of \<open>m\<close> relates its start and end state by
  \<open>R\<close>; its rules (collection \<open>pres_intros\<close>) let a preservation proof follow the shape of
  a handler.
\<close>

section \<open>Machine types and JavaScript strings\<close>

type_synonym byte = "8 word"
type_synonym i32 = "32 word" \<comment> \<open>a WebAssembly i32 argument\<close>
type_synonym f32 = "32 word" \<comment> \<open>a WebAssembly f32 argument, as its IEEE-754 bit pattern\<close>
type_synonym jstring = "16 word list" \<comment> \<open>a JavaScript string: UTF-16 code units\<close>
type_synonym mem = "byte list" \<comment> \<open>the contents of \<open>getMemory().buffer\<close>\<close>

text \<open>A WebAssembly \<open>i32\<close> reaches JavaScript as the Number of its signed reading.\<close>

definition js_of_i32 :: "i32 \<Rightarrow> int" where
  "js_of_i32 w = sint w"

definition js_str :: "string \<Rightarrow> jstring" where
  "js_str s = map (\<lambda>c. of_nat (of_char c)) s"

section \<open>Exceptions\<close>

text \<open>
  \<open>RangeError\<close> and \<open>TypeError\<close> are the built-in errors raised by typed-array
  constructors and by the WebIDL argument conversion of the host API; \<open>Thrown s\<close> is a
  primitive string value used as an exception (\<open>throw "..."\<close>); \<open>Error s\<close> is
  \<open>new Error(s)\<close>.
\<close>

datatype exn = RangeError | TypeError | Thrown jstring | Error jstring

section \<open>The exception-and-state monad\<close>

type_synonym ('s, 'a) jsm = "'s \<Rightarrow> (exn + 'a) \<times> 's"

definition js_ret :: "'a \<Rightarrow> ('s, 'a) jsm" where
  "js_ret x = (\<lambda>s. (Inr x, s))"

definition js_throw :: "exn \<Rightarrow> ('s, 'a) jsm" where
  "js_throw e = (\<lambda>s. (Inl e, s))"

definition js_bind :: "('s, 'a) jsm \<Rightarrow> ('a \<Rightarrow> ('s, 'b) jsm) \<Rightarrow> ('s, 'b) jsm" where
  "js_bind m f = (\<lambda>s. case m s of (Inl e, s') \<Rightarrow> (Inl e, s') | (Inr x, s') \<Rightarrow> f x s')"

definition js_lift :: "exn + 'a \<Rightarrow> ('s, 'a) jsm" where
  "js_lift r = (\<lambda>s. (r, s))"

definition js_get :: "('s, 's) jsm" where
  "js_get = (\<lambda>s. (Inr s, s))"

definition js_modify :: "('s \<Rightarrow> 's) \<Rightarrow> ('s, unit) jsm" where
  "js_modify f = (\<lambda>s. (Inr (), f s))"

text \<open>\<open>pres R m\<close>: every run of \<open>m\<close> relates its start and end state by \<open>R\<close>.\<close>

definition pres :: "('s \<Rightarrow> 's \<Rightarrow> bool) \<Rightarrow> ('s, 'a) jsm \<Rightarrow> bool" where
  "pres R m \<longleftrightarrow> (\<forall>s. R s (snd (m s)))"

named_theorems jsm_simps "evaluation rules of the exception-and-state monad"

lemma js_ret_app [jsm_simps]: "js_ret x s = (Inr x, s)"
  by (simp add: js_ret_def)

lemma js_throw_app [jsm_simps]: "js_throw e s = (Inl e, s)"
  by (simp add: js_throw_def)

lemma js_lift_app [jsm_simps]: "js_lift r s = (r, s)"
  by (simp add: js_lift_def)

lemma js_get_app [jsm_simps]: "js_get s = (Inr s, s)"
  by (simp add: js_get_def)

lemma js_modify_app [jsm_simps]: "js_modify f s = (Inr (), f s)"
  by (simp add: js_modify_def)

lemma js_bind_app [jsm_simps]:
  "js_bind m f s = (case m s of (Inl e, s') \<Rightarrow> (Inl e, s') | (Inr x, s') \<Rightarrow> f x s')"
  by (simp add: js_bind_def)

lemma js_bind_ret [simp]: "js_bind (js_ret x) f = f x"
  by (simp add: js_bind_def js_ret_def)

lemma js_bind_throw [simp]: "js_bind (js_throw e) f = js_throw e"
  by (simp add: js_bind_def js_throw_def)

lemma js_bind_assoc [simp]:
  "js_bind (js_bind m f) g = js_bind m (\<lambda>x. js_bind (f x) g)"
  by (rule ext) (simp add: js_bind_def split: prod.splits sum.splits)

text \<open>Running a bound computation: the two outcomes of the first part.\<close>

lemma js_bind_Inl [jsm_simps]:
  "m s = (Inl e, s') \<Longrightarrow> js_bind m f s = (Inl e, s')"
  by (simp add: js_bind_def)

lemma js_bind_Inr [jsm_simps]:
  "m s = (Inr x, s') \<Longrightarrow> js_bind m f s = f x s'"
  by (simp add: js_bind_def)

section \<open>Relations preserved by every run\<close>

named_theorems pres_intros "rules that prove pres R for a composed computation"

lemma pres_ret [pres_intros]: "reflp R \<Longrightarrow> pres R (js_ret x)"
  by (simp add: pres_def js_ret_def reflpD)

lemma pres_throw [pres_intros]: "reflp R \<Longrightarrow> pres R (js_throw e)"
  by (simp add: pres_def js_throw_def reflpD)

lemma pres_lift [pres_intros]: "reflp R \<Longrightarrow> pres R (js_lift r)"
  by (simp add: pres_def js_lift_def reflpD)

lemma pres_get [pres_intros]: "reflp R \<Longrightarrow> pres R js_get"
  by (simp add: pres_def js_get_def reflpD)

lemma pres_bind [pres_intros]:
  assumes "transp R" and "pres R m" and "\<And>x. pres R (f x)"
  shows "pres R (js_bind m f)"
  unfolding pres_def
proof
  fix s
  obtain r s' where m: "m s = (r, s')" by (cases "m s")
  have Rs': "R s s'" using assms(2) m unfolding pres_def by (metis snd_conv)
  show "R s (snd (js_bind m f s))"
  proof (cases r)
    case (Inl e)
    with m Rs' show ?thesis by (simp add: js_bind_def)
  next
    case (Inr x)
    have "R s' (snd (f x s'))" using assms(3) unfolding pres_def by blast
    with Inr m Rs' assms(1) show ?thesis by (simp add: js_bind_def transpD [of R s s'])
  qed
qed

lemma pres_if [pres_intros]: "pres R m1 \<Longrightarrow> pres R m2 \<Longrightarrow> pres R (if b then m1 else m2)"
  by simp

lemma map_sum_id_Inl [simp]: "map_sum id f x = Inl e \<longleftrightarrow> x = Inl e"
  by (cases x) simp_all

text \<open>A computation that starts with a fallible pure value, run over a second value that
  fails only where the first fails and agrees with it where it succeeds.\<close>

lemma js_lift_replace:
  assumes "js_bind (js_lift v) f s = (r, s')" and "r \<noteq> Inl err"
    and "\<And>e. v = Inl e \<Longrightarrow> e = err" and "\<And>x. v = Inr x \<Longrightarrow> v' = Inr x"
  shows "js_bind (js_lift v') f s = (r, s')"
  using assms by (cases v) (auto simp: jsm_simps)

lemma presD: "pres R m \<Longrightarrow> m s = (r, s') \<Longrightarrow> R s s'"
  unfolding pres_def by (metis snd_conv)

section \<open>Generic lemmas on words and lists\<close>

text \<open>An \<open>i32\<close> whose unsigned value is at least \<open>2^31\<close> reaches JavaScript as a negative Number.\<close>

lemma i32_high_negative: "2 ^ 31 \<le> unat (w :: i32) \<Longrightarrow> js_of_i32 w < 0"
proof -
  assume hi: "2 ^ 31 \<le> unat w"
  have lt: "uint w < 2 ^ 32" using unsigned_less [of w] by (simp only: len_num1 len_bit0 len_bit1) simp
  have "int (2 ^ 31) \<le> int (unat w)" using hi by (simp only: of_nat_le_iff)
  then have ge: "(2::int) ^ 31 \<le> uint w" by (simp only: uint_nat of_nat_power of_nat_numeral)
  have "signed_take_bit 31 (uint w) \<le> uint w - 2 ^ Suc 31"
    using ge by (rule signed_take_bit_int_less_eq)
  moreover have "(2::int) ^ Suc 31 = 2 ^ 32" by simp
  ultimately have "signed_take_bit 31 (uint w) < 0" using lt by linarith
  moreover have "sint w = signed_take_bit 31 (uint w)" by (simp add: sint_uint)
  ultimately show ?thesis by (simp only: js_of_i32_def)
qed

text \<open>A byte widened to a code unit and narrowed back is the byte.\<close>

lemma byte_code_unit_id [simp]: "ucast (ucast b :: 16 word) = (b :: byte)"
  by (rule ucast_up_ucast_id) (simp add: is_up_def)


lemma take_drop_eq_if_agree:
  assumes "\<forall>k. a \<le> k \<and> k < a + n \<longrightarrow> k < length xs \<and> k < length ys \<and> xs ! k = ys ! k"
  shows "take n (drop a xs) = take n (drop a ys)"
proof (rule nth_equalityI)
  show "length (take n (drop a xs)) = length (take n (drop a ys))"
  proof (cases n)
    case 0 then show ?thesis by simp
  next
    case (Suc m)
    then have "a + m < length xs" "a + m < length ys" using assms by auto
    with Suc show ?thesis by simp
  qed
next
  fix i assume "i < length (take n (drop a xs))"
  then have i: "i < n" "a + i < length xs" by auto
  with assms have "a + i < length ys" "xs ! (a + i) = ys ! (a + i)" by auto
  with i show "take n (drop a xs) ! i = take n (drop a ys) ! i"
    by simp
qed

lemma take_drop_append_prefix:
  "a + n \<le> length xs \<Longrightarrow> take n (drop a (xs @ ys)) = take n (drop a xs)"
  by simp

end
