(* ===== verification/JS_Values.thy ===== *)
theory JS_Values
  imports Prelude
begin

text \<open>
  The JavaScript values that flow between the bridge and the host graphics API: the
  results of host calls, the contents of the handle tables, and the values returned to
  the guest. Host objects (\<open>WebGLShader\<close>, \<open>WebGLBuffer\<close>, \<dots>) are opaque: an object
  is its interface (\<open>gl_kind\<close>) and an identity. Numbers are the integral Numbers the bridge
  handles (handles, enums, status codes). \<open>js_truthy\<close> is ECMAScript ToBoolean, used by
  \<open>if (!x)\<close>; \<open>js_to_string\<close> is ToString, used by string concatenation with \<open>+\<close>.
\<close>

datatype gl_kind =
  KShader | KProgram | KBuffer | KTexture | KFramebuffer | KUniformLocation

datatype jsval =
  JUndef | JNull | JBool bool | JNum int | JStr jstring | JObj gl_kind nat

fun js_truthy :: "jsval \<Rightarrow> bool" where
  "js_truthy JUndef = False"
| "js_truthy JNull = False"
| "js_truthy (JBool b) = b"
| "js_truthy (JNum n) = (n \<noteq> 0)"
| "js_truthy (JStr s) = (s \<noteq> [])"
| "js_truthy (JObj k n) = True"

fun dec_digits :: "nat \<Rightarrow> jstring" where
  "dec_digits n =
     (if n < 10 then [of_nat (48 + n)] else dec_digits (n div 10) @ [of_nat (48 + n mod 10)])"

declare dec_digits.simps [simp del]

definition js_num_string :: "int \<Rightarrow> jstring" where
  "js_num_string i = (if i < 0 then js_str ''-'' @ dec_digits (nat (- i)) else dec_digits (nat i))"

fun kind_name :: "gl_kind \<Rightarrow> string" where
  "kind_name KShader = ''WebGLShader''"
| "kind_name KProgram = ''WebGLProgram''"
| "kind_name KBuffer = ''WebGLBuffer''"
| "kind_name KTexture = ''WebGLTexture''"
| "kind_name KFramebuffer = ''WebGLFramebuffer''"
| "kind_name KUniformLocation = ''WebGLUniformLocation''"

fun js_to_string :: "jsval \<Rightarrow> jstring" where
  "js_to_string JUndef = js_str ''undefined''"
| "js_to_string JNull = js_str ''null''"
| "js_to_string (JBool b) = js_str (if b then ''true'' else ''false'')"
| "js_to_string (JNum n) = js_num_string n"
| "js_to_string (JStr s) = s"
| "js_to_string (JObj k n) = js_str (''[object '' @ kind_name k @ '']'')"

lemma dec_digits_nonempty: "dec_digits n \<noteq> []"
  by (subst dec_digits.simps) simp

lemma js_str_append [simp]: "js_str (a @ b) = js_str a @ js_str b"
  by (simp add: js_str_def)

lemma length_js_str [simp]: "length (js_str s) = length s"
  by (simp add: js_str_def)

end
