(* ===== verification/Handle_Tables.thy ===== *)
theory Handle_Tables
  imports JS_Values
begin

text \<open>
  The Handle Tables of \<open>src/js/oxid_webgl.js\<close> (lines 20--25): six JavaScript arrays,
  \<open>glShaders\<close>, \<open>glPrograms\<close>, \<open>glBuffers\<close>, \<open>glTextures\<close>, \<open>glFramebuffers\<close> and
  \<open>glUniformLocations\<close>. A table is a list of JavaScript values; a hole of the array reads
  as \<open>undefined\<close> and is the value \<open>JUndef\<close> of the list. The three array operations the
  bridge uses are \<open>t.push(v); return t.length - 1\<close> (creation), \<open>t[i]\<close> (resolution) and
  \<open>t[i] = undefined\<close> (the tombstone of deletion). Indices are the Numbers the guest passes,
  so they can be negative or past the end: reading there yields \<open>undefined\<close>, and assigning
  past the end extends the array with holes.

  The abstract contract of a handle table (spec, section 4.1, with the hardening of
  section 7) is \<open>htable\<close>: a counter of issued handles and a partial map from handles to
  live objects; \<open>ht_create\<close>, \<open>ht_resolve\<close> and \<open>ht_delete\<close> are its operations, with
  \<open>InvalidHandle\<close> for unissued or deleted handles. \<open>ht_abs\<close> reads a JavaScript array as
  such a table; the lemmas of the last section read the three array operations through it,
  and the root theory states on the entry points where they implement the contract and
  where they depart from it.
\<close>

section \<open>JavaScript array operations\<close>

definition js_index :: "jsval list \<Rightarrow> int \<Rightarrow> jsval" where
  "js_index t i = (if 0 \<le> i \<and> nat i < length t then t ! nat i else JUndef)"

definition js_push :: "jsval list \<Rightarrow> jsval \<Rightarrow> jsval list" where
  "js_push t v = t @ [v]"

text \<open>
  \<open>t[i] = undefined\<close>. A negative Number is not an array index: the assignment creates an
  ordinary property that holds \<open>undefined\<close>, so the array and every later read of
  \<open>t[i]\<close> are as before. (Every i32 is below \<open>2^32 - 1\<close>, so every non-negative one is an
  array index.)
\<close>

definition js_set_undefined :: "jsval list \<Rightarrow> int \<Rightarrow> jsval list" where
  "js_set_undefined t i =
     (if i < 0 then t
      else if nat i < length t then t[nat i := JUndef]
      else t @ replicate (nat i - length t) JUndef @ [JUndef])"

text \<open>
  \<open>slot_kept t t'\<close>: the table \<open>t'\<close> has every slot of \<open>t\<close>, each with its old value or
  cleared to \<open>undefined\<close>; the relation every entry point keeps between old and new table.
\<close>

definition slot_kept :: "jsval list \<Rightarrow> jsval list \<Rightarrow> bool" where
  "slot_kept t t' \<longleftrightarrow>
     length t \<le> length t' \<and> (\<forall>j < length t. t' ! j = t ! j \<or> t' ! j = JUndef)"

section \<open>The abstract handle table\<close>

datatype ht_error = InvalidHandle

record 'a htable =
  ht_next :: nat
  ht_slots :: "nat \<rightharpoonup> 'a"

definition ht_create :: "'a \<Rightarrow> 'a htable \<Rightarrow> nat \<times> 'a htable" where
  "ht_create v t = (ht_next t, t\<lparr>ht_next := Suc (ht_next t), ht_slots := (ht_slots t)(ht_next t \<mapsto> v)\<rparr>)"

definition ht_resolve :: "'a htable \<Rightarrow> nat \<Rightarrow> ht_error + 'a" where
  "ht_resolve t h = (case ht_slots t h of None \<Rightarrow> Inl InvalidHandle | Some v \<Rightarrow> Inr v)"

definition ht_delete :: "'a htable \<Rightarrow> nat \<Rightarrow> ht_error + 'a htable" where
  "ht_delete t h =
     (if h \<in> dom (ht_slots t) then Inr (t\<lparr>ht_slots := (ht_slots t)(h := None)\<rparr>) else Inl InvalidHandle)"

definition ht_wf :: "'a htable \<Rightarrow> bool" where
  "ht_wf t \<longleftrightarrow> dom (ht_slots t) \<subseteq> {..<ht_next t}"

definition ht_abs :: "jsval list \<Rightarrow> jsval htable" where
  "ht_abs t = \<lparr>ht_next = length t,
              ht_slots = (\<lambda>h. if h < length t \<and> t ! h \<noteq> JUndef then Some (t ! h) else None)\<rparr>"

section \<open>Array lemmas\<close>

lemma length_js_push [simp]: "length (js_push t v) = Suc (length t)"
  by (simp add: js_push_def)

lemma js_index_push_new [simp]: "js_index (js_push t v) (int (length t)) = v"
  by (simp add: js_index_def js_push_def)

lemma js_index_push_old:
  "i \<noteq> int (length t) \<Longrightarrow> js_index (js_push t v) i = js_index t i"
  by (auto simp: js_index_def js_push_def nth_append)

lemma js_index_set_undefined_same [simp]: "js_index (js_set_undefined t i) i = JUndef"
  by (auto simp: js_index_def js_set_undefined_def nth_append)

lemma js_index_set_undefined_other:
  "j \<noteq> i \<Longrightarrow> js_index (js_set_undefined t i) j = js_index t j"
  by (auto simp: js_index_def js_set_undefined_def nth_append nat_eq_iff)

lemma length_js_set_undefined:
  "length (js_set_undefined t i) = (if i < 0 then length t else max (length t) (Suc (nat i)))"
  by (auto simp: js_set_undefined_def)

lemma js_index_out_of_range:
  "i < 0 \<or> int (length t) \<le> i \<Longrightarrow> js_index t i = JUndef"
  by (auto simp: js_index_def)

lemma slot_kept_refl [simp]: "slot_kept t t"
  by (simp add: slot_kept_def)

lemma slot_kept_trans: "slot_kept t1 t2 \<Longrightarrow> slot_kept t2 t3 \<Longrightarrow> slot_kept t1 t3"
  unfolding slot_kept_def by (metis order.strict_trans2 order_trans)

lemma slot_kept_undef:
  "slot_kept t t' \<Longrightarrow> 0 \<le> i \<Longrightarrow> nat i < length t \<Longrightarrow> js_index t i = JUndef \<Longrightarrow> js_index t' i = JUndef"
  by (auto simp: slot_kept_def js_index_def)

lemma slot_kept_push: "slot_kept t (js_push t v)"
  by (simp add: slot_kept_def js_push_def nth_append)

lemma slot_kept_set_undefined: "slot_kept t (js_set_undefined t i)"
  by (auto simp: slot_kept_def js_set_undefined_def nth_append nth_list_update)

section \<open>The array against the abstract contract\<close>

lemma ht_abs_wf: "ht_wf (ht_abs t)"
  by (auto simp: ht_wf_def ht_abs_def split: if_splits)

lemma ht_create_wf: "ht_wf t \<Longrightarrow> ht_wf (snd (ht_create v t))"
  by (auto simp: ht_wf_def ht_create_def)

lemma ht_delete_wf: "ht_wf t \<Longrightarrow> ht_delete t h = Inr t' \<Longrightarrow> ht_wf t'"
  by (auto simp: ht_wf_def ht_delete_def split: if_splits) blast

lemma ht_abs_slot: "ht_slots (ht_abs t) h = (if js_index t (int h) = JUndef then None else Some (js_index t (int h)))"
  by (simp add: ht_abs_def js_index_def)

text \<open>
  The three array operations read through \<open>ht_abs\<close>: a push of a value is the contract's
  \<open>create\<close>, reading a slot is its \<open>resolve\<close>, and the tombstone of a live slot is its
  \<open>delete\<close>; a tombstone of a dead slot is accepted and changes nothing, where the contract
  reports \<open>InvalidHandle\<close>. The entry-point refinements of the root theory rest on these.
\<close>

lemma ht_create_abs_push:
  assumes "v \<noteq> JUndef"
  shows "ht_create v (ht_abs t) = (length t, ht_abs (js_push t v))"
proof -
  have "ht_slots (ht_abs (js_push t v)) = (ht_slots (ht_abs t))(length t \<mapsto> v)"
    using assms by (auto simp: ht_abs_def js_push_def nth_append)
  then show ?thesis by (simp add: ht_create_def ht_abs_def js_push_def)
qed

lemma ht_resolve_abs:
  "ht_resolve (ht_abs t) h =
     (if js_index t (int h) = JUndef then Inl InvalidHandle else Inr (js_index t (int h)))"
  by (simp add: ht_resolve_def ht_abs_slot)

lemma ht_delete_abs_tombstone:
  assumes "ht_delete (ht_abs t) h = Inr a'"
  shows "a' = ht_abs (js_set_undefined t (int h))"
proof -
  from assms have live: "h < length t" "t ! h \<noteq> JUndef"
    and a': "a' = (ht_abs t)\<lparr>ht_slots := (ht_slots (ht_abs t))(h := None)\<rparr>"
    by (auto simp: ht_delete_def ht_abs_def split: if_splits)
  from live have "js_set_undefined t (int h) = t[h := JUndef]"
    by (simp add: js_set_undefined_def)
  with live a' show ?thesis
    by (auto simp: ht_abs_def nth_list_update)
qed

lemma ht_delete_abs_dead: "js_index t (int h) = JUndef \<Longrightarrow> ht_delete (ht_abs t) h = Inl InvalidHandle"
  by (simp add: ht_delete_def ht_abs_slot domIff)

lemma js_set_undefined_dead: "js_index t i = JUndef \<Longrightarrow> 0 \<le> i \<Longrightarrow> nat i < length t \<Longrightarrow> js_set_undefined t i = t"
  by (simp add: js_set_undefined_def js_index_def list_update_same_conv)

end
