(* ===== verification/Host_API.thy ===== *)
theory Host_API
  imports Handle_Tables
begin

text \<open>
  The interface between the bridge and the host graphics API. The bridge is the closure
  returned by \<open>getWebGLEnv\<close> (\<open>src/js/oxid_webgl.js\<close>, lines 1--27): the rendering context
  \<open>gl\<close> and the six handle tables. \<open>glenv\<close> is that closure state; the context's own
  state is a type parameter \<open>'h\<close>, since the WebGL implementation is not part of the
  repository. Every call the bridge makes on \<open>gl\<close> is a value of \<open>gl_call\<close>, with its
  arguments as the bridge computed them (host objects resolved from the tables, strings
  decoded, typed-array views read); a host is any function \<open>'h gl_host\<close> that answers a
  call with a value or an exception and a new context state. \<open>gl_invoke\<close> performs one
  call; the host cannot see or touch the tables.
\<close>

section \<open>Calls on the rendering context\<close>

datatype (plugins only: code size) gl_call =
    ActiveTexture int
  | AttachShader jsval jsval
  | BindBuffer int jsval
  | BindFramebuffer int jsval
  | BindTexture int jsval
  | BlendFunc int int
  | BufferData int "f32 list" int
  | CheckFramebufferStatus int
  | Clear int
  | ClearColor f32 f32 f32 f32
  | CompileShader jsval
  | GetShaderParameter jsval int
  | GetShaderInfoLog jsval
  | CreateBuffer
  | CreateFramebuffer
  | CreateProgram
  | CreateShader int
  | CreateTexture
  | DeleteBuffer jsval
  | DeleteProgram jsval
  | DeleteShader jsval
  | DeleteTexture jsval
  | DepthFunc int
  | DetachShader jsval jsval
  | Disable int
  | DrawArrays int int int
  | Enable int
  | EnableVertexAttribArray int
  | FramebufferTexture2D int int int jsval int
  | FrontFace int
  | GetAttribLocation jsval jstring
  | GetError
  | GetUniformLocation jsval jstring
  | LinkProgram jsval
  | GetProgramParameter jsval int
  | GetProgramInfoLog jsval
  | PixelStorei int int
  | ShaderSource jsval jstring
  | TexImage2D int int int int int int int int "byte list option"
  | TexParameterf int int f32
  | TexParameteri int int int
  | Uniform1f jsval f32
  | Uniform1i jsval int
  | Uniform4f jsval f32 f32 f32 f32
  | UniformMatrix4fv jsval int "f32 list"
  | UseProgram jsval
  | VertexAttribPointer int int int int int int
  | Viewport int int int int

text \<open>The two constants of the context the bridge reads, \<open>gl.COMPILE_STATUS\<close> and \<open>gl.LINK_STATUS\<close>.\<close>

definition COMPILE_STATUS :: int where "COMPILE_STATUS = 35713"
definition LINK_STATUS :: int where "LINK_STATUS = 35714"

text \<open>
  The context attributes dictionary of \<open>canvas.getContext('webgl', attrs)\<close>: the two
  members the bridge sets.
\<close>

record context_attributes =
  antialias :: bool
  preserveDrawingBuffer :: bool

type_synonym 'h gl_host = "gl_call \<Rightarrow> 'h \<Rightarrow> (exn + jsval) \<times> 'h"

section \<open>The closure state of getWebGLEnv\<close>

record 'h glenv =
  gl :: 'h
  glShaders :: "jsval list"
  glPrograms :: "jsval list"
  glBuffers :: "jsval list"
  glTextures :: "jsval list"
  glFramebuffers :: "jsval list"
  glUniformLocations :: "jsval list"

fun table :: "gl_kind \<Rightarrow> 'h glenv \<Rightarrow> jsval list" where
  "table KShader s = glShaders s"
| "table KProgram s = glPrograms s"
| "table KBuffer s = glBuffers s"
| "table KTexture s = glTextures s"
| "table KFramebuffer s = glFramebuffers s"
| "table KUniformLocation s = glUniformLocations s"

fun map_table :: "gl_kind \<Rightarrow> (jsval list \<Rightarrow> jsval list) \<Rightarrow> 'h glenv \<Rightarrow> 'h glenv" where
  "map_table KShader f s = glShaders_update f s"
| "map_table KProgram f s = glPrograms_update f s"
| "map_table KBuffer f s = glBuffers_update f s"
| "map_table KTexture f s = glTextures_update f s"
| "map_table KFramebuffer f s = glFramebuffers_update f s"
| "map_table KUniformLocation f s = glUniformLocations_update f s"

section \<open>Primitives of the entry points\<close>

definition gl_invoke :: "'h gl_host \<Rightarrow> gl_call \<Rightarrow> ('h glenv, jsval) jsm" where
  "gl_invoke host c = (\<lambda>s. case host c (gl s) of (r, h') \<Rightarrow> (r, s\<lparr>gl := h'\<rparr>))"

text \<open>\<open>t.push(v); return t.length - 1;\<close>\<close>

definition push_handle :: "gl_kind \<Rightarrow> jsval \<Rightarrow> ('h glenv, jsval) jsm" where
  "push_handle K v =
     js_bind (js_modify (map_table K (\<lambda>t. js_push t v)))
       (\<lambda>_. js_bind js_get (\<lambda>e. js_ret (JNum (int (length (table K e)) - 1))))"

text \<open>\<open>t[id] = undefined;\<close>\<close>

definition tombstone :: "gl_kind \<Rightarrow> int \<Rightarrow> ('h glenv, unit) jsm" where
  "tombstone K i = js_modify (map_table K (\<lambda>t. js_set_undefined t i))"

text \<open>A function body that ends without \<open>return\<close> returns \<open>undefined\<close>.\<close>

definition js_void :: "('s, 'a) jsm \<Rightarrow> ('s, jsval) jsm" where
  "js_void m = js_bind m (\<lambda>_. js_ret JUndef)"

definition tables_kept :: "'h glenv \<Rightarrow> 'h glenv \<Rightarrow> bool" where
  "tables_kept s s' \<longleftrightarrow> (\<forall>K. slot_kept (table K s) (table K s'))"

text \<open>A host that never throws, built from a function that answers every call with a value.\<close>

definition total_host :: "(gl_call \<Rightarrow> 'h \<Rightarrow> jsval \<times> 'h) \<Rightarrow> 'h gl_host" where
  "total_host f c g = (Inr (fst (f c g)), snd (f c g))"

section \<open>Tables under the primitives\<close>

lemma total_host_app [simp]: "total_host f c g = (Inr (fst (f c g)), snd (f c g))"
  by (simp add: total_host_def)


lemma table_map_table_same [simp]: "table K (map_table K f s) = f (table K s)"
  by (cases K) simp_all

lemma table_map_table_other [simp]: "K' \<noteq> K \<Longrightarrow> table K' (map_table K f s) = table K' s"
  by (cases K; cases K') simp_all

lemma table_gl_update [simp]: "table K (s\<lparr>gl := h\<rparr>) = table K s"
  by (cases K) simp_all

lemma gl_map_table [simp]: "gl (map_table K f s) = gl s"
  by (cases K) simp_all

lemma gl_invoke_app [jsm_simps]:
  "gl_invoke host c s = (fst (host c (gl s)), s\<lparr>gl := snd (host c (gl s))\<rparr>)"
  by (simp add: gl_invoke_def split: prod.splits)

lemma push_handle_app [jsm_simps]:
  "push_handle K v s =
     (Inr (JNum (int (length (table K s)))), map_table K (\<lambda>t. js_push t v) s)"
  by (simp add: push_handle_def jsm_simps)

lemma tombstone_app [jsm_simps]:
  "tombstone K i s = (Inr (), map_table K (\<lambda>t. js_set_undefined t i) s)"
  by (simp add: tombstone_def jsm_simps)

lemma js_void_app [jsm_simps]:
  "js_void m s = (case m s of (Inl e, s') \<Rightarrow> (Inl e, s') | (Inr x, s') \<Rightarrow> (Inr JUndef, s'))"
  by (simp add: js_void_def jsm_simps split: prod.splits sum.splits)

section \<open>Slots are kept\<close>

lemma tables_kept_reflp [simp, intro]: "reflp tables_kept"
  by (simp add: reflp_def tables_kept_def)

lemma tables_kept_transp [simp, intro]: "transp tables_kept"
  unfolding transp_def tables_kept_def by (metis slot_kept_trans)

lemma tables_kept_refl [simp]: "tables_kept s s"
  by (simp add: tables_kept_def)

lemma tables_kept_trans: "tables_kept s1 s2 \<Longrightarrow> tables_kept s2 s3 \<Longrightarrow> tables_kept s1 s3"
  by (meson transpD tables_kept_transp)

lemma pres_gl_invoke [pres_intros]: "pres tables_kept (gl_invoke host c)"
  by (simp add: pres_def tables_kept_def gl_invoke_app)

lemma pres_push_handle [pres_intros]: "pres tables_kept (push_handle K v)"
  unfolding pres_def tables_kept_def
proof (intro allI)
  fix s K'
  show "slot_kept (table K' s) (table K' (snd (push_handle K v s)))"
    by (cases "K' = K") (simp_all add: push_handle_app slot_kept_push)
qed

lemma pres_tombstone [pres_intros]: "pres tables_kept (tombstone K i)"
  unfolding pres_def tables_kept_def
proof (intro allI)
  fix s K'
  show "slot_kept (table K' s) (table K' (snd (tombstone K i s)))"
    by (cases "K' = K") (simp_all add: tombstone_app slot_kept_set_undefined)
qed

lemma pres_js_void [pres_intros]: "pres tables_kept m \<Longrightarrow> pres tables_kept (js_void m)"
  unfolding js_void_def by (intro pres_intros tables_kept_reflp tables_kept_transp) simp_all

end
