(* ===== verification/Error_Translator.thy ===== *)
theory Error_Translator
  imports Host_API
begin

text \<open>
  The Error Translator of \<open>src/js/oxid_webgl.js\<close>: the two entry points that check a status
  after the host call, \<open>glCompileShader\<close> (lines 59--64) and \<open>glLinkProgram\<close> (lines
  137--142). Each issues the call, asks the context for the status, and when the status is
  falsy asks for the info log and throws the string \<open>"Error compiling shader:" + log\<close> (or
  \<open>"Error linking program:" + log\<close>). The handle expression \<open>glShaders[shader]\<close> is
  evaluated again for each of the three calls, as in the source. Nothing is cleaned up on
  failure. The lemmas give the outcome of each entry point for every answer of the host.
\<close>

definition compile_error :: "jsval \<Rightarrow> exn" where
  "compile_error log = Thrown (js_str ''Error compiling shader:'' @ js_to_string log)"

definition link_error :: "jsval \<Rightarrow> exn" where
  "link_error log = Thrown (js_str ''Error linking program:'' @ js_to_string log)"

definition glCompileShader :: "'h gl_host \<Rightarrow> int \<Rightarrow> ('h glenv, jsval) jsm" where
  "glCompileShader host shader =
     js_bind js_get (\<lambda>e. js_bind (gl_invoke host (CompileShader (js_index (glShaders e) shader))) (\<lambda>_.
     js_bind js_get (\<lambda>e. js_bind (gl_invoke host
         (GetShaderParameter (js_index (glShaders e) shader) COMPILE_STATUS)) (\<lambda>status.
     if \<not> js_truthy status then
       js_bind js_get (\<lambda>e. js_bind (gl_invoke host (GetShaderInfoLog (js_index (glShaders e) shader)))
         (\<lambda>log. js_throw (compile_error log)))
     else js_ret JUndef))))"

definition glLinkProgram :: "'h gl_host \<Rightarrow> int \<Rightarrow> ('h glenv, jsval) jsm" where
  "glLinkProgram host program =
     js_bind js_get (\<lambda>e. js_bind (gl_invoke host (LinkProgram (js_index (glPrograms e) program))) (\<lambda>_.
     js_bind js_get (\<lambda>e. js_bind (gl_invoke host
         (GetProgramParameter (js_index (glPrograms e) program) LINK_STATUS)) (\<lambda>status.
     if \<not> js_truthy status then
       js_bind js_get (\<lambda>e. js_bind (gl_invoke host (GetProgramInfoLog (js_index (glPrograms e) program)))
         (\<lambda>log. js_throw (link_error log)))
     else js_ret JUndef))))"

section \<open>Outcomes\<close>

text \<open>
  The three host answers of a compile, threaded through the context state: \<open>h1\<close> after
  \<open>compileShader\<close>, \<open>h2\<close> after \<open>getShaderParameter\<close>, \<open>h3\<close> after \<open>getShaderInfoLog\<close>.
\<close>

lemma glCompileShader_app:
  "glCompileShader host shader s =
     (let sh = js_index (glShaders s) shader in
      case host (CompileShader sh) (gl s) of
        (Inl e, h1) \<Rightarrow> (Inl e, s\<lparr>gl := h1\<rparr>)
      | (Inr _, h1) \<Rightarrow>
          (case host (GetShaderParameter sh COMPILE_STATUS) h1 of
             (Inl e, h2) \<Rightarrow> (Inl e, s\<lparr>gl := h2\<rparr>)
           | (Inr status, h2) \<Rightarrow>
               if \<not> js_truthy status then
                 (case host (GetShaderInfoLog sh) h2 of
                    (Inl e, h3) \<Rightarrow> (Inl e, s\<lparr>gl := h3\<rparr>)
                  | (Inr log, h3) \<Rightarrow> (Inl (compile_error log), s\<lparr>gl := h3\<rparr>))
               else (Inr JUndef, s\<lparr>gl := h2\<rparr>)))"
  by (simp add: glCompileShader_def jsm_simps Let_def split: prod.splits sum.splits)

lemma glLinkProgram_app:
  "glLinkProgram host program s =
     (let p = js_index (glPrograms s) program in
      case host (LinkProgram p) (gl s) of
        (Inl e, h1) \<Rightarrow> (Inl e, s\<lparr>gl := h1\<rparr>)
      | (Inr _, h1) \<Rightarrow>
          (case host (GetProgramParameter p LINK_STATUS) h1 of
             (Inl e, h2) \<Rightarrow> (Inl e, s\<lparr>gl := h2\<rparr>)
           | (Inr status, h2) \<Rightarrow>
               if \<not> js_truthy status then
                 (case host (GetProgramInfoLog p) h2 of
                    (Inl e, h3) \<Rightarrow> (Inl e, s\<lparr>gl := h3\<rparr>)
                  | (Inr log, h3) \<Rightarrow> (Inl (link_error log), s\<lparr>gl := h3\<rparr>))
               else (Inr JUndef, s\<lparr>gl := h2\<rparr>)))"
  by (simp add: glLinkProgram_def jsm_simps Let_def split: prod.splits sum.splits)

end
