(* ===== verification/Memory.thy ===== *)
theory Memory
  imports Prelude "HOL-Library.While_Combinator"
begin

text \<open>
  The Marshaller of \<open>src/js/oxid_webgl.js\<close>: reading guest linear memory through typed-array
  views. Every memory-reading entry point calls \<open>getMemory()\<close> afresh and builds a view
  \<open>new Uint8Array(buf, ptr, len)\<close> or \<open>new Float32Array(buf, ptr, count)\<close> over the current
  buffer; the buffer is the \<open>mem\<close> argument of the model. \<open>typed_view\<close> is the ECMAScript
  constructor for an element size: it throws \<open>RangeError\<close> for a negative offset or length,
  a misaligned offset, or a range past the end of the buffer, and otherwise views the bytes
  of the range. A \<open>Float32Array\<close> element is four bytes read little-endian (the byte order
  of every platform WebAssembly runs on). \<open>readCharStr\<close> is the loop that maps each byte to
  one UTF-16 code unit.
\<close>

section \<open>Typed-array views\<close>

definition typed_view :: "nat \<Rightarrow> mem \<Rightarrow> int \<Rightarrow> int \<Rightarrow> exn + byte list" where
  "typed_view esz buf off len =
     (if off < 0 \<or> off mod int esz \<noteq> 0 \<or> len < 0 \<or> int (length buf) < off + len * int esz
      then Inl RangeError
      else Inr (take (nat len * esz) (drop (nat off) buf)))"

definition Uint8Array :: "mem \<Rightarrow> int \<Rightarrow> int \<Rightarrow> exn + byte list" where
  "Uint8Array buf off len = typed_view 1 buf off len"

subsection \<open>Little-endian words\<close>

fun le_nat :: "byte list \<Rightarrow> nat" where
  "le_nat [] = 0"
| "le_nat (b # bs) = unat b + 256 * le_nat bs"

fun le_bytes :: "nat \<Rightarrow> nat \<Rightarrow> byte list" where
  "le_bytes 0 n = []"
| "le_bytes (Suc k) n = of_nat (n mod 256) # le_bytes k (n div 256)"

definition f32_of_le :: "byte list \<Rightarrow> f32" where
  "f32_of_le bs = of_nat (le_nat bs)"

definition le_of_f32 :: "f32 \<Rightarrow> byte list" where
  "le_of_f32 w = le_bytes 4 (unat w)"

fun chunks4 :: "'a list \<Rightarrow> 'a list list" where
  "chunks4 (a # b # c # d # rest) = [a, b, c, d] # chunks4 rest"
| "chunks4 _ = []"

definition Float32Array :: "mem \<Rightarrow> int \<Rightarrow> int \<Rightarrow> exn + f32 list" where
  "Float32Array buf off len = map_sum id (\<lambda>bs. map f32_of_le (chunks4 bs)) (typed_view 4 buf off len)"

section \<open>readCharStr\<close>

text \<open>
  \<open>String.fromCharCode(bytes[i])\<close>: an index inside the view reads the byte; outside it
  the read yields \<open>undefined\<close>, which \<open>fromCharCode\<close> converts to code unit 0.
\<close>

definition char_code_at :: "byte list \<Rightarrow> int \<Rightarrow> 16 word" where
  "char_code_at bytes i = (if 0 \<le> i \<and> nat i < length bytes then ucast (bytes ! nat i) else 0)"

function read_chars :: "byte list \<Rightarrow> int \<Rightarrow> int \<Rightarrow> jstring \<Rightarrow> jstring" where
  "read_chars bytes len i s =
     (if i < len then read_chars bytes len (i + 1) (s @ [char_code_at bytes i]) else s)"
  by pat_completeness auto
termination
  by (relation "measure (\<lambda>(bytes, len, i, s). nat (len - i))") auto

declare read_chars.simps [simp del]

definition readCharStr :: "mem \<Rightarrow> int \<Rightarrow> int \<Rightarrow> exn + jstring" where
  "readCharStr buf ptr len =
     (case Uint8Array buf ptr len of
        Inl e \<Rightarrow> Inl e
      | Inr bytes \<Rightarrow> Inr (read_chars bytes len 0 []))"

text \<open>
  The same \<open>for\<close> loop kept as a loop: the state is the pair \<open>(i, s)\<close> of the loop
  variable and the accumulated string, \<open>read_step\<close> is one iteration
  (\<open>s += String.fromCharCode(bytes[i]); ++i\<close>) and \<open>while_option\<close> runs it while
  \<open>i < len\<close>, from \<open>(0, "")\<close>.
\<close>

definition read_step :: "byte list \<Rightarrow> int \<times> jstring \<Rightarrow> int \<times> jstring" where
  "read_step bytes = (\<lambda>(i, s). (i + 1, s @ [char_code_at bytes i]))"

definition read_chars_loop :: "byte list \<Rightarrow> int \<Rightarrow> (int \<times> jstring) option" where
  "read_chars_loop bytes len = while_option (\<lambda>(i, s). i < len) (read_step bytes) (0, [])"

section \<open>Views\<close>

text \<open>The range check of the constructor, read on \<open>nat\<close>.\<close>

lemma view_range_nat:
  assumes "0 \<le> off" "0 \<le> len" "off + len * int esz \<le> int n"
  shows "nat off + nat len * esz \<le> n"
proof -
  have "int (nat off + nat len * esz) = off + len * int esz"
    using assms(1,2) by simp
  with assms(3) show ?thesis by linarith
qed

text \<open>When the view is built, it has exactly the requested number of bytes.\<close>

lemma typed_view_ok:
  assumes "0 \<le> off" "off mod int esz = 0" "0 \<le> len" "off + len * int esz \<le> int (length buf)"
  shows "typed_view esz buf off len = Inr (take (nat len * esz) (drop (nat off) buf))"
  using assms by (simp add: typed_view_def)

lemma typed_view_Inr_iff:
  "typed_view esz buf off len = Inr v \<longleftrightarrow>
     0 \<le> off \<and> off mod int esz = 0 \<and> 0 \<le> len \<and> off + len * int esz \<le> int (length buf) \<and>
     v = take (nat len * esz) (drop (nat off) buf)"
  by (auto simp: typed_view_def)

lemma typed_view_Inl_iff:
  "typed_view esz buf off len = Inl e \<longleftrightarrow>
     e = RangeError \<and>
     (off < 0 \<or> off mod int esz \<noteq> 0 \<or> len < 0 \<or> int (length buf) < off + len * int esz)"
  by (auto simp: typed_view_def)

lemma typed_view_length:
  assumes "typed_view esz buf off len = Inr v"
  shows "length v = nat len * esz"
proof -
  from assms have r: "0 \<le> off" "0 \<le> len" "off + len * int esz \<le> int (length buf)"
    and v: "v = take (nat len * esz) (drop (nat off) buf)"
    by (auto simp: typed_view_Inr_iff)
  from r have "nat off + nat len * esz \<le> length buf"
    by (rule view_range_nat)
  with v show ?thesis by simp
qed

text \<open>Frame: a view reads only the bytes of its range, and the length of the buffer.\<close>

lemma typed_view_frame:
  assumes "length buf' = length buf"
    and "\<forall>k. nat off \<le> k \<and> k < nat off + nat len * esz \<longrightarrow> buf' ! k = buf ! k"
  shows "typed_view esz buf' off len = typed_view esz buf off len"
proof (cases "typed_view esz buf off len")
  case (Inl e)
  with assms(1) show ?thesis by (simp add: typed_view_def split: if_splits)
next
  case (Inr v)
  then have ok: "0 \<le> off" "off mod int esz = 0" "0 \<le> len" "off + len * int esz \<le> int (length buf)"
    by (auto simp: typed_view_Inr_iff)
  then have "nat off + nat len * esz \<le> length buf"
    by (intro view_range_nat) simp_all
  with assms have "take (nat len * esz) (drop (nat off) buf') = take (nat len * esz) (drop (nat off) buf)"
    by (intro take_drop_eq_if_agree) auto
  with ok assms(1) show ?thesis by (simp add: typed_view_def)
qed

text \<open>Growth: a view that could be built over a buffer is the same over any longer buffer.\<close>

lemma typed_view_grow:
  assumes "typed_view esz buf off len = Inr v"
  shows "typed_view esz (buf @ ext) off len = Inr v"
proof -
  from assms have ok: "0 \<le> off" "off mod int esz = 0" "0 \<le> len" "off + len * int esz \<le> int (length buf)"
    and v: "v = take (nat len * esz) (drop (nat off) buf)"
    by (auto simp: typed_view_Inr_iff)
  then have "nat off + nat len * esz \<le> length buf"
    by (intro view_range_nat) simp_all
  with ok v show ?thesis by (simp add: typed_view_def)
qed

section \<open>Little-endian decoding\<close>

lemma le_nat_le_bytes: "le_nat (le_bytes k n) = n mod 256 ^ k"
proof (induction k arbitrary: n)
  case 0
  then show ?case by simp
next
  case (Suc k)
  have "unat (of_nat (n mod 256) :: byte) = n mod 256"
    by (simp add: unat_of_nat)
  with Suc.IH show ?case
    by (simp add: mod_mult2_eq)
qed

lemma le_nat_bound: "le_nat bs < 256 ^ length bs"
proof (induction bs)
  case Nil
  then show ?case by simp
next
  case (Cons b bs)
  have "unat b < 256" using unsigned_less [of b] by simp
  with Cons.IH show ?case by simp
qed

lemma le_bytes_le_nat: "le_bytes (length bs) (le_nat bs) = bs"
proof (induction bs)
  case Nil
  then show ?case by simp
next
  case (Cons b bs)
  have b: "unat b < 256" using unsigned_less [of b] by simp
  then have "(unat b + 256 * le_nat bs) mod 256 = unat b"
    "(unat b + 256 * le_nat bs) div 256 = le_nat bs" by simp_all
  with Cons.IH show ?case by simp
qed

lemma le_bytes_numeral:
  "le_bytes (numeral k) n = of_nat (n mod 256) # le_bytes (pred_numeral k) (n div 256)"
  by (subst numeral_eq_Suc) (rule le_bytes.simps(2))

lemma length_le_bytes [simp]: "length (le_bytes k n) = k"
  by (induction k arbitrary: n) simp_all

lemma length_le_of_f32 [simp]: "length (le_of_f32 w) = 4"
  by (simp add: le_of_f32_def)

lemma length_concat_le_of_f32 [simp]: "length (concat (map le_of_f32 ws)) = 4 * length ws"
  by (induction ws) simp_all

lemma chunks4_replicate: "chunks4 (replicate (4 * n) x) = replicate n (replicate 4 x)"
  by (induction n) (simp_all add: numeral_eq_Suc)

lemma chunks4_length: "length xs = 4 * n \<Longrightarrow> length (chunks4 xs) = n"
proof (induction xs arbitrary: n rule: chunks4.induct)
  case (1 a b c d rest)
  then obtain m where "n = Suc m" "length rest = 4 * m" by (cases n) auto
  with "1.IH" show ?case by simp
qed (auto)

lemma chunks4_concat: "(\<forall>x \<in> set xss. length x = 4) \<Longrightarrow> chunks4 (concat xss) = xss"
proof (induction xss)
  case Nil
  then show ?case by simp
next
  case (Cons x xss)
  then obtain a b c d where "x = [a, b, c, d]"
    by (auto simp: length_Suc_conv numeral_eq_Suc)
  with Cons show ?case by simp
qed

lemma concat_chunks4: "4 dvd length xs \<Longrightarrow> concat (chunks4 xs) = xs"
proof (induction xs rule: chunks4.induct)
  case (1 a b c d rest)
  then have "4 dvd length rest" by (simp add: dvd_def) presburger
  with "1.IH" show ?case by simp
qed (simp_all add: dvd_def, presburger+)

lemma set_chunks4_length: "x \<in> set (chunks4 xs) \<Longrightarrow> length x = 4"
  by (induction xs rule: chunks4.induct) auto


lemma f32_of_le_of_f32: "f32_of_le (le_of_f32 w) = w"
proof -
  have "unat w < 256 ^ 4" using unsigned_less [of w] by simp
  then show ?thesis by (simp add: f32_of_le_def le_of_f32_def le_nat_le_bytes)
qed

lemma le_of_f32_of_le:
  assumes "length bs = 4"
  shows "le_of_f32 (f32_of_le bs) = bs"
proof -
  have "le_nat bs < 2 ^ 32" using le_nat_bound [of bs] assms by simp
  then have "unat (of_nat (le_nat bs) :: f32) = le_nat bs"
    by (simp add: unat_of_nat)
  with assms show ?thesis
    by (metis f32_of_le_def le_of_f32_def le_bytes_le_nat)
qed

section \<open>Float32Array\<close>

lemma Float32Array_Inr_iff:
  "Float32Array buf off n = Inr fs \<longleftrightarrow>
     (\<exists>bs. typed_view 4 buf off n = Inr bs \<and> fs = map f32_of_le (chunks4 bs))"
  by (cases "typed_view 4 buf off n") (auto simp: Float32Array_def)

lemma Float32Array_Inl_iff:
  "Float32Array buf off n = Inl e \<longleftrightarrow> typed_view 4 buf off n = Inl e"
  by (cases "typed_view 4 buf off n") (auto simp: Float32Array_def)

lemma Float32Array_length:
  assumes "Float32Array buf off n = Inr fs"
  shows "length fs = nat n"
proof -
  from assms obtain bs where bs: "typed_view 4 buf off n = Inr bs" and fs: "fs = map f32_of_le (chunks4 bs)"
    by (auto simp: Float32Array_Inr_iff)
  from bs have "length bs = 4 * nat n" by (simp add: typed_view_length)
  then have "length (chunks4 bs) = nat n" by (rule chunks4_length)
  with fs show ?thesis by simp
qed

text \<open>
  A \<open>Float32Array\<close> over a range that holds the little-endian encodings of the
  floats \<open>ws\<close> reads back exactly \<open>ws\<close>.
\<close>

lemma Float32Array_read_back:
  assumes "0 \<le> off" "off mod 4 = 0" "off + 4 * int (length ws) \<le> int (length buf)"
    and "take (4 * length ws) (drop (nat off) buf) = concat (map le_of_f32 ws)"
  shows "Float32Array buf off (int (length ws)) = Inr ws"
proof -
  have "typed_view 4 buf off (int (length ws)) = Inr (concat (map le_of_f32 ws))"
    using assms by (simp add: typed_view_def mult.commute)
  moreover have "chunks4 (concat (map le_of_f32 ws)) = map le_of_f32 ws"
    by (rule chunks4_concat) auto
  ultimately show ?thesis by (simp add: Float32Array_def comp_def f32_of_le_of_f32)
qed

section \<open>readCharStr\<close>

lemma read_chars_eq: "read_chars bytes len i s = s @ map (char_code_at bytes) [i..len - 1]"
proof (induction bytes len i s rule: read_chars.induct)
  case (1 bytes len i s)
  show ?case
  proof (cases "i < len")
    case True
    then have "[i..len - 1] = i # [i + 1..len - 1]" by (simp add: upto_rec1)
    with True "1.IH" show ?thesis by (simp add: read_chars.simps [of bytes len i s])
  next
    case False
    then show ?thesis by (simp add: read_chars.simps [of bytes len i s])
  qed
qed

lemma map_char_code_at: "map (char_code_at bytes) [0..int (length bytes) - 1] = map ucast bytes"
proof (rule nth_equalityI)
  show "length (map (char_code_at bytes) [0..int (length bytes) - 1]) = length (map ucast bytes)"
    by simp
next
  fix k assume "k < length (map (char_code_at bytes) [0..int (length bytes) - 1])"
  then have k: "k < length bytes" by simp
  then have "[0..int (length bytes) - 1] ! k = int k" by (simp add: nth_upto)
  with k show "map (char_code_at bytes) [0..int (length bytes) - 1] ! k = map ucast bytes ! k"
    by (simp add: char_code_at_def)
qed


lemma readCharStr_range_error:
  "ptr < 0 \<or> len < 0 \<or> int (length buf) < ptr + len \<Longrightarrow> readCharStr buf ptr len = Inl RangeError"
  by (auto simp: readCharStr_def Uint8Array_def typed_view_def)

lemma readCharStr_ok:
  assumes "0 \<le> ptr" "0 \<le> len" "ptr + len \<le> int (length buf)"
  shows "readCharStr buf ptr len = Inr (map ucast (take (nat len) (drop (nat ptr) buf)))"
proof -
  define bytes where "bytes = take (nat len) (drop (nat ptr) buf)"
  from assms have view: "Uint8Array buf ptr len = Inr bytes"
    by (simp add: Uint8Array_def typed_view_def bytes_def)
  then have "length bytes = nat len"
    unfolding Uint8Array_def by (metis typed_view_length mult.right_neutral)
  with assms have len: "int (length bytes) = len" by simp
  have "read_chars bytes len 0 [] = map (char_code_at bytes) [0..int (length bytes) - 1]"
    by (simp add: read_chars_eq len)
  also have "\<dots> = map ucast bytes" by (rule map_char_code_at)
  finally show ?thesis using view by (simp add: readCharStr_def bytes_def)
qed

text \<open>
  C11: \<open>readCharStr(ptr, len)\<close> throws \<open>RangeError\<close> exactly when
  the range is negative or runs past the end of the current buffer, and otherwise returns
  one code unit per byte of the range, the code unit equal to the byte.
\<close>

theorem readCharStr_spec:
  "readCharStr buf ptr len =
     (if ptr < 0 \<or> len < 0 \<or> int (length buf) < ptr + len then Inl RangeError
      else Inr (map ucast (take (nat len) (drop (nat ptr) buf))))"
  using readCharStr_range_error [of ptr len buf] readCharStr_ok [of ptr len buf] by auto

text \<open>
  C12: the byte-to-code-unit mapping loses nothing: the string
  \<open>readCharStr\<close> returns gives back, code unit by code unit, exactly the bytes of the range
  (no multi-byte decoding, no replacement characters).
\<close>

theorem readCharStr_roundtrip:
  assumes "readCharStr buf ptr len = Inr s"
  shows "map ucast s = take (nat len) (drop (nat ptr) buf) \<and> length s = nat len"
proof -
  have ok: "\<not> (ptr < 0 \<or> len < 0 \<or> int (length buf) < ptr + len)"
    using assms readCharStr_range_error [of ptr len buf] by auto
  with assms have s: "s = map ucast (take (nat len) (drop (nat ptr) buf))"
    using readCharStr_ok [of ptr len buf] by simp
  have "nat ptr + nat len \<le> length buf" using ok by linarith
  then have "length s = nat len" using s by simp
  moreover have "map ucast s = take (nat len) (drop (nat ptr) buf)"
    using s by (simp add: comp_def)
  ultimately show ?thesis by simp
qed


section \<open>The loop of readCharStr as a while loop\<close>

lemma read_step_pow:
  "(read_step bytes ^^ k) (i, s) = (i + int k, s @ map (char_code_at bytes) [i..i + int k - 1])"
proof (induction k)
  case 0
  then show ?case by simp
next
  case (Suc k)
  have "[i..i + int k] = [i..i + int k - 1] @ [i + int k]"
    by (simp add: upto_rec2)
  with Suc.IH show ?case by (simp add: read_step_def algebra_simps)
qed

text \<open>
  C32: the \<open>for\<close> loop of \<open>readCharStr\<close> terminates for every length: it stops after
  exactly \<open>len\<close> iterations (none for a length that is not positive), in the state
  reached by that many steps.
\<close>

theorem read_chars_loop_iterations:
  "read_chars_loop bytes len = Some ((read_step bytes ^^ nat len) (0, []))"
proof -
  let ?b = "\<lambda>(i, s). i < len"
  have fst_pow: "fst ((read_step bytes ^^ k) (0, [])) = int k" for k
    by (simp add: read_step_pow)
  have least: "(LEAST k. \<not> ?b ((read_step bytes ^^ k) (0, []))) = nat len"
  proof (rule Least_equality)
    show "\<not> ?b ((read_step bytes ^^ nat len) (0, []))" by (simp add: read_step_pow)
  next
    fix k assume "\<not> ?b ((read_step bytes ^^ k) (0, []))"
    then show "nat len \<le> k" by (simp add: read_step_pow)
  qed
  have "\<exists>k. \<not> ?b ((read_step bytes ^^ k) (0, []))"
    by (rule exI [of _ "nat len"]) (simp add: read_step_pow)
  with least show ?thesis by (simp add: read_chars_loop_def while_option_def)
qed

section \<open>Frames, growth and errors of the views\<close>

lemma Float32Array_frame:
  assumes "length buf' = length buf" and "\<forall>k. nat off \<le> k \<and> k < nat off + nat (4 * n) \<longrightarrow> buf' ! k = buf ! k"
  shows "Float32Array buf' off n = Float32Array buf off n"
proof -
  have "nat (4 * n) = nat n * 4" by (simp add: nat_mult_distrib)
  with assms have "typed_view 4 buf' off n = typed_view 4 buf off n"
    by (intro typed_view_frame) simp_all
  then show ?thesis by (simp add: Float32Array_def)
qed

lemma Uint8Array_frame:
  assumes "length buf' = length buf" and "\<forall>k. nat off \<le> k \<and> k < nat off + nat n \<longrightarrow> buf' ! k = buf ! k"
  shows "Uint8Array buf' off n = Uint8Array buf off n"
  unfolding Uint8Array_def using assms by (intro typed_view_frame) simp_all

lemma readCharStr_frame:
  assumes "length buf' = length buf" and "\<forall>k. nat off \<le> k \<and> k < nat off + nat n \<longrightarrow> buf' ! k = buf ! k"
  shows "readCharStr buf' off n = readCharStr buf off n"
  using Uint8Array_frame [OF assms] by (simp add: readCharStr_def)

lemma Float32Array_grow: "Float32Array buf off n = Inr fs \<Longrightarrow> Float32Array (buf @ ext) off n = Inr fs"
  by (auto simp: Float32Array_Inr_iff dest: typed_view_grow)

lemma Uint8Array_grow: "Uint8Array buf off n = Inr bs \<Longrightarrow> Uint8Array (buf @ ext) off n = Inr bs"
  by (simp add: Uint8Array_def typed_view_grow)

lemma readCharStr_grow: "readCharStr buf off n = Inr str \<Longrightarrow> readCharStr (buf @ ext) off n = Inr str"
  by (cases "Uint8Array buf off n") (simp_all add: readCharStr_def Uint8Array_grow)

lemma Float32Array_Inl: "Float32Array buf off n = Inl e \<Longrightarrow> e = RangeError"
  by (simp add: Float32Array_Inl_iff typed_view_Inl_iff)

lemma Uint8Array_Inl: "Uint8Array buf off n = Inl e \<Longrightarrow> e = RangeError"
  by (simp add: Uint8Array_def typed_view_Inl_iff)

lemma readCharStr_Inl: "readCharStr buf off n = Inl e \<Longrightarrow> e = RangeError"
  by (cases "Uint8Array buf off n") (simp_all add: readCharStr_def Uint8Array_Inl)

section \<open>Witnesses\<close>

theorem readCharStr_roundtrip_witness:
  "readCharStr [72, 105] 0 2 = Inr [72, 105] \<and>
   map ucast ([72, 105] :: jstring) = take (nat 2) (drop (nat 0) [72, 105 :: byte]) \<and>
   length ([72, 105] :: jstring) = nat 2"
proof -
  have r: "readCharStr [72, 105] 0 2 = Inr [72, 105]" by (simp add: readCharStr_ok)
  show ?thesis using readCharStr_roundtrip [OF r] r by simp
qed

end
