(* ===== verification/Dispatch.thy ===== *)
theory Dispatch
  imports Error_Translator Memory
begin

text \<open>
  The Dispatch Surface of \<open>src/js/oxid_webgl.js\<close>: one definition per method of the object
  returned by \<open>getWebGLEnv\<close> (lines 28--182), in the order of the source, each with the
  parameters of the JavaScript method (Numbers as \<open>int\<close>). Methods that read guest memory
  take \<open>mem\<close>, the buffer \<open>getMemory().buffer\<close> returns during that call.
  \<open>getWebGLEnv\<close> (lines 1--27) builds the closure state from the context that
  \<open>canvas.getContext\<close> returns. \<open>op\<close> is the guest's side of the boundary: one constructor
  per import, with the WebAssembly arguments (\<open>i32\<close>, \<open>f32\<close>), and \<open>dispatch\<close> calls the
  method with each \<open>i32\<close> read as the signed Number JavaScript receives. \<open>run\<close> executes a
  sequence of guest calls, each with the memory of its moment; \<open>reachable\<close> is the set of
  closure states some sequence of calls produces.
\<close>

section \<open>getWebGLEnv\<close>

text \<open>\<open>{antialias: false, preserveDrawingBuffer: true}\<close>\<close>

definition webgl_attributes :: context_attributes where
  "webgl_attributes = \<lparr>antialias = False, preserveDrawingBuffer = True\<rparr>"

text \<open>
  \<open>canvas_element.getContext\<close> is the host's: given the context type and the attributes,
  it returns a context or \<open>null\<close> (\<open>None\<close>), and \<open>!gl\<close> holds exactly for \<open>null\<close>.
\<close>

definition getWebGLEnv :: "(jstring \<Rightarrow> context_attributes \<Rightarrow> 'h option) \<Rightarrow> exn + 'h glenv" where
  "getWebGLEnv getContext =
     (case getContext (js_str ''webgl'') webgl_attributes of
        None \<Rightarrow> Inl (Error (js_str ''The browser does not support WebGL''))
      | Some g \<Rightarrow> Inr \<lparr>gl = g, glShaders = [], glPrograms = [], glBuffers = [], glTextures = [],
                      glFramebuffers = [], glUniformLocations = []\<rparr>)"

section \<open>The methods\<close>

definition glActiveTexture :: "'h gl_host \<Rightarrow> int \<Rightarrow> ('h glenv, jsval) jsm" where
  "glActiveTexture host target = js_void (gl_invoke host (ActiveTexture target))"

definition glAttachShader :: "'h gl_host \<Rightarrow> int \<Rightarrow> int \<Rightarrow> ('h glenv, jsval) jsm" where
  "glAttachShader host program shader = js_bind js_get (\<lambda>e.
     js_void (gl_invoke host (AttachShader (js_index (glPrograms e) program) (js_index (glShaders e) shader))))"

definition glBindBuffer :: "'h gl_host \<Rightarrow> int \<Rightarrow> int \<Rightarrow> ('h glenv, jsval) jsm" where
  "glBindBuffer host type buffer_id = js_bind js_get (\<lambda>e.
     js_void (gl_invoke host (BindBuffer type (js_index (glBuffers e) buffer_id))))"

definition glBindFramebuffer :: "'h gl_host \<Rightarrow> int \<Rightarrow> int \<Rightarrow> ('h glenv, jsval) jsm" where
  "glBindFramebuffer host target framebuffer = js_bind js_get (\<lambda>e.
     js_void (gl_invoke host (BindFramebuffer target (js_index (glFramebuffers e) framebuffer))))"

definition glBindTexture :: "'h gl_host \<Rightarrow> int \<Rightarrow> int \<Rightarrow> ('h glenv, jsval) jsm" where
  "glBindTexture host target texture_id = js_bind js_get (\<lambda>e.
     js_void (gl_invoke host (BindTexture target (js_index (glTextures e) texture_id))))"

definition glBlendFunc :: "'h gl_host \<Rightarrow> int \<Rightarrow> int \<Rightarrow> ('h glenv, jsval) jsm" where
  "glBlendFunc host x y = js_void (gl_invoke host (BlendFunc x y))"

definition glBufferData :: "'h gl_host \<Rightarrow> mem \<Rightarrow> int \<Rightarrow> int \<Rightarrow> int \<Rightarrow> int \<Rightarrow> ('h glenv, jsval) jsm" where
  "glBufferData host buf type count data_ptr draw_type =
     js_bind (js_lift (Float32Array buf data_ptr count)) (\<lambda>floats.
     js_void (gl_invoke host (BufferData type floats draw_type)))"

definition glCheckFramebufferStatus :: "'h gl_host \<Rightarrow> int \<Rightarrow> ('h glenv, jsval) jsm" where
  "glCheckFramebufferStatus host target = gl_invoke host (CheckFramebufferStatus target)"

definition glClear :: "'h gl_host \<Rightarrow> int \<Rightarrow> ('h glenv, jsval) jsm" where
  "glClear host mask_bits = js_void (gl_invoke host (Clear mask_bits))"

definition glClearColor :: "'h gl_host \<Rightarrow> f32 \<Rightarrow> f32 \<Rightarrow> f32 \<Rightarrow> f32 \<Rightarrow> ('h glenv, jsval) jsm" where
  "glClearColor host r g b a = js_void (gl_invoke host (ClearColor r g b a))"

definition glCreateBuffer :: "'h gl_host \<Rightarrow> ('h glenv, jsval) jsm" where
  "glCreateBuffer host = js_bind (gl_invoke host CreateBuffer) (push_handle KBuffer)"

definition glCreateFramebuffer :: "'h gl_host \<Rightarrow> ('h glenv, jsval) jsm" where
  "glCreateFramebuffer host = js_bind (gl_invoke host CreateFramebuffer) (push_handle KFramebuffer)"

definition glCreateProgram :: "'h gl_host \<Rightarrow> ('h glenv, jsval) jsm" where
  "glCreateProgram host = js_bind (gl_invoke host CreateProgram) (push_handle KProgram)"

definition glCreateShader :: "'h gl_host \<Rightarrow> int \<Rightarrow> ('h glenv, jsval) jsm" where
  "glCreateShader host shader_type = js_bind (gl_invoke host (CreateShader shader_type)) (push_handle KShader)"

definition glCreateTexture :: "'h gl_host \<Rightarrow> ('h glenv, jsval) jsm" where
  "glCreateTexture host = js_bind (gl_invoke host CreateTexture) (push_handle KTexture)"

definition glDeleteBuffer :: "'h gl_host \<Rightarrow> int \<Rightarrow> ('h glenv, jsval) jsm" where
  "glDeleteBuffer host i = js_bind js_get (\<lambda>e.
     js_bind (gl_invoke host (DeleteBuffer (js_index (glBuffers e) i))) (\<lambda>_. js_void (tombstone KBuffer i)))"

definition glDeleteProgram :: "'h gl_host \<Rightarrow> int \<Rightarrow> ('h glenv, jsval) jsm" where
  "glDeleteProgram host i = js_bind js_get (\<lambda>e.
     js_bind (gl_invoke host (DeleteProgram (js_index (glPrograms e) i))) (\<lambda>_. js_void (tombstone KProgram i)))"

definition glDeleteShader :: "'h gl_host \<Rightarrow> int \<Rightarrow> ('h glenv, jsval) jsm" where
  "glDeleteShader host i = js_bind js_get (\<lambda>e.
     js_bind (gl_invoke host (DeleteShader (js_index (glShaders e) i))) (\<lambda>_. js_void (tombstone KShader i)))"

definition glDeleteTexture :: "'h gl_host \<Rightarrow> int \<Rightarrow> ('h glenv, jsval) jsm" where
  "glDeleteTexture host i = js_bind js_get (\<lambda>e.
     js_bind (gl_invoke host (DeleteTexture (js_index (glTextures e) i))) (\<lambda>_. js_void (tombstone KTexture i)))"

definition glDepthFunc :: "'h gl_host \<Rightarrow> int \<Rightarrow> ('h glenv, jsval) jsm" where
  "glDepthFunc host x = js_void (gl_invoke host (DepthFunc x))"

definition glDetachShader :: "'h gl_host \<Rightarrow> int \<Rightarrow> int \<Rightarrow> ('h glenv, jsval) jsm" where
  "glDetachShader host program shader = js_bind js_get (\<lambda>e.
     js_void (gl_invoke host (DetachShader (js_index (glPrograms e) program) (js_index (glShaders e) shader))))"

definition glDisable :: "'h gl_host \<Rightarrow> int \<Rightarrow> ('h glenv, jsval) jsm" where
  "glDisable host cap = js_void (gl_invoke host (Disable cap))"

definition glDrawArrays :: "'h gl_host \<Rightarrow> int \<Rightarrow> int \<Rightarrow> int \<Rightarrow> ('h glenv, jsval) jsm" where
  "glDrawArrays host type offset count = js_void (gl_invoke host (DrawArrays type offset count))"

definition glEnable :: "'h gl_host \<Rightarrow> int \<Rightarrow> ('h glenv, jsval) jsm" where
  "glEnable host x = js_void (gl_invoke host (Enable x))"

definition glEnableVertexAttribArray :: "'h gl_host \<Rightarrow> int \<Rightarrow> ('h glenv, jsval) jsm" where
  "glEnableVertexAttribArray host x = js_void (gl_invoke host (EnableVertexAttribArray x))"

definition glFramebufferTexture2D :: "'h gl_host \<Rightarrow> int \<Rightarrow> int \<Rightarrow> int \<Rightarrow> int \<Rightarrow> int \<Rightarrow> ('h glenv, jsval) jsm" where
  "glFramebufferTexture2D host target attachment textarget texture level = js_bind js_get (\<lambda>e.
     js_void (gl_invoke host (FramebufferTexture2D target attachment textarget (js_index (glTextures e) texture) level)))"

definition glFrontFace :: "'h gl_host \<Rightarrow> int \<Rightarrow> ('h glenv, jsval) jsm" where
  "glFrontFace host mode = js_void (gl_invoke host (FrontFace mode))"

definition glGetAttribLocation :: "'h gl_host \<Rightarrow> mem \<Rightarrow> int \<Rightarrow> int \<Rightarrow> int \<Rightarrow> ('h glenv, jsval) jsm" where
  "glGetAttribLocation host buf program_id name_ptr name_len =
     js_bind (js_lift (readCharStr buf name_ptr name_len)) (\<lambda>name. js_bind js_get (\<lambda>e.
     gl_invoke host (GetAttribLocation (js_index (glPrograms e) program_id) name)))"

definition glGetError :: "'h gl_host \<Rightarrow> ('h glenv, jsval) jsm" where
  "glGetError host = gl_invoke host GetError"

definition glGetUniformLocation :: "'h gl_host \<Rightarrow> mem \<Rightarrow> int \<Rightarrow> int \<Rightarrow> int \<Rightarrow> ('h glenv, jsval) jsm" where
  "glGetUniformLocation host buf program_id name_ptr name_len =
     js_bind (js_lift (readCharStr buf name_ptr name_len)) (\<lambda>name. js_bind js_get (\<lambda>e.
     js_bind (gl_invoke host (GetUniformLocation (js_index (glPrograms e) program_id) name))
       (push_handle KUniformLocation)))"

definition glPixelStorei :: "'h gl_host \<Rightarrow> int \<Rightarrow> int \<Rightarrow> ('h glenv, jsval) jsm" where
  "glPixelStorei host pname param = js_void (gl_invoke host (PixelStorei pname param))"

definition glShaderSource :: "'h gl_host \<Rightarrow> mem \<Rightarrow> int \<Rightarrow> int \<Rightarrow> int \<Rightarrow> ('h glenv, jsval) jsm" where
  "glShaderSource host buf shader string_ptr string_len =
     js_bind (js_lift (readCharStr buf string_ptr string_len)) (\<lambda>string. js_bind js_get (\<lambda>e.
     js_void (gl_invoke host (ShaderSource (js_index (glShaders e) shader) string))))"

text \<open>\<open>data_len > 0 ? new Uint8Array(getMemory().buffer, data_ptr, data_len) : null\<close>\<close>

definition glTexImage2D ::
  "'h gl_host \<Rightarrow> mem \<Rightarrow> int \<Rightarrow> int \<Rightarrow> int \<Rightarrow> int \<Rightarrow> int \<Rightarrow> int \<Rightarrow> int \<Rightarrow> int \<Rightarrow> int \<Rightarrow> int \<Rightarrow> ('h glenv, jsval) jsm" where
  "glTexImage2D host buf target level internal_format width height border format type data_ptr data_len =
     js_bind (if 0 < data_len then js_lift (map_sum id Some (Uint8Array buf data_ptr data_len)) else js_ret None)
       (\<lambda>data. js_void (gl_invoke host
          (TexImage2D target level internal_format width height border format type data)))"

definition glTexParameterf :: "'h gl_host \<Rightarrow> int \<Rightarrow> int \<Rightarrow> f32 \<Rightarrow> ('h glenv, jsval) jsm" where
  "glTexParameterf host target pname param = js_void (gl_invoke host (TexParameterf target pname param))"

definition glTexParameteri :: "'h gl_host \<Rightarrow> int \<Rightarrow> int \<Rightarrow> int \<Rightarrow> ('h glenv, jsval) jsm" where
  "glTexParameteri host target pname param = js_void (gl_invoke host (TexParameteri target pname param))"

definition glUniform1f :: "'h gl_host \<Rightarrow> int \<Rightarrow> f32 \<Rightarrow> ('h glenv, jsval) jsm" where
  "glUniform1f host location_id x = js_bind js_get (\<lambda>e.
     js_void (gl_invoke host (Uniform1f (js_index (glUniformLocations e) location_id) x)))"

definition glUniform1i :: "'h gl_host \<Rightarrow> int \<Rightarrow> int \<Rightarrow> ('h glenv, jsval) jsm" where
  "glUniform1i host location_id x = js_bind js_get (\<lambda>e.
     js_void (gl_invoke host (Uniform1i (js_index (glUniformLocations e) location_id) x)))"

definition glUniform4f :: "'h gl_host \<Rightarrow> int \<Rightarrow> f32 \<Rightarrow> f32 \<Rightarrow> f32 \<Rightarrow> f32 \<Rightarrow> ('h glenv, jsval) jsm" where
  "glUniform4f host location_id x y z w = js_bind js_get (\<lambda>e.
     js_void (gl_invoke host (Uniform4f (js_index (glUniformLocations e) location_id) x y z w)))"

definition glUniformMatrix4fv :: "'h gl_host \<Rightarrow> mem \<Rightarrow> int \<Rightarrow> int \<Rightarrow> int \<Rightarrow> int \<Rightarrow> ('h glenv, jsval) jsm" where
  "glUniformMatrix4fv host buf location_id data_len transp_flag data_ptr =
     js_bind (js_lift (Float32Array buf data_ptr (data_len * 16))) (\<lambda>floats. js_bind js_get (\<lambda>e.
     js_void (gl_invoke host (UniformMatrix4fv (js_index (glUniformLocations e) location_id) transp_flag floats))))"

definition glUseProgram :: "'h gl_host \<Rightarrow> int \<Rightarrow> ('h glenv, jsval) jsm" where
  "glUseProgram host program_id = js_bind js_get (\<lambda>e.
     js_void (gl_invoke host (UseProgram (js_index (glPrograms e) program_id))))"

definition glVertexAttribPointer :: "'h gl_host \<Rightarrow> int \<Rightarrow> int \<Rightarrow> int \<Rightarrow> int \<Rightarrow> int \<Rightarrow> int \<Rightarrow> ('h glenv, jsval) jsm" where
  "glVertexAttribPointer host attrib_location comp_size type normalized stride offset =
     js_void (gl_invoke host (VertexAttribPointer attrib_location comp_size type normalized stride offset))"

definition glViewport :: "'h gl_host \<Rightarrow> int \<Rightarrow> int \<Rightarrow> int \<Rightarrow> int \<Rightarrow> ('h glenv, jsval) jsm" where
  "glViewport host x y width height = js_void (gl_invoke host (Viewport x y width height))"

section \<open>The guest's calls\<close>

datatype (plugins only: code size) op =
    OActiveTexture i32
  | OAttachShader i32 i32
  | OBindBuffer i32 i32
  | OBindFramebuffer i32 i32
  | OBindTexture i32 i32
  | OBlendFunc i32 i32
  | OBufferData i32 i32 i32 i32
  | OCheckFramebufferStatus i32
  | OClear i32
  | OClearColor f32 f32 f32 f32
  | OCompileShader i32
  | OCreateBuffer
  | OCreateFramebuffer
  | OCreateProgram
  | OCreateShader i32
  | OCreateTexture
  | ODeleteBuffer i32
  | ODeleteProgram i32
  | ODeleteShader i32
  | ODeleteTexture i32
  | ODepthFunc i32
  | ODetachShader i32 i32
  | ODisable i32
  | ODrawArrays i32 i32 i32
  | OEnable i32
  | OEnableVertexAttribArray i32
  | OFramebufferTexture2D i32 i32 i32 i32 i32
  | OFrontFace i32
  | OGetAttribLocation i32 i32 i32
  | OGetError
  | OGetUniformLocation i32 i32 i32
  | OLinkProgram i32
  | OPixelStorei i32 i32
  | OShaderSource i32 i32 i32
  | OTexImage2D i32 i32 i32 i32 i32 i32 i32 i32 i32 i32
  | OTexParameterf i32 i32 f32
  | OTexParameteri i32 i32 i32
  | OUniform1f i32 f32
  | OUniform1i i32 i32
  | OUniform4f i32 f32 f32 f32 f32
  | OUniformMatrix4fv i32 i32 i32 i32
  | OUseProgram i32
  | OVertexAttribPointer i32 i32 i32 i32 i32 i32
  | OViewport i32 i32 i32 i32

abbreviation (input) J :: "i32 \<Rightarrow> int" where "J \<equiv> js_of_i32"

primrec dispatch :: "'h gl_host \<Rightarrow> mem \<Rightarrow> op \<Rightarrow> ('h glenv, jsval) jsm" where
  "dispatch host buf (OActiveTexture a) = glActiveTexture host (J a)"
| "dispatch host buf (OAttachShader a b) = glAttachShader host (J a) (J b)"
| "dispatch host buf (OBindBuffer a b) = glBindBuffer host (J a) (J b)"
| "dispatch host buf (OBindFramebuffer a b) = glBindFramebuffer host (J a) (J b)"
| "dispatch host buf (OBindTexture a b) = glBindTexture host (J a) (J b)"
| "dispatch host buf (OBlendFunc a b) = glBlendFunc host (J a) (J b)"
| "dispatch host buf (OBufferData a b c d) = glBufferData host buf (J a) (J b) (J c) (J d)"
| "dispatch host buf (OCheckFramebufferStatus a) = glCheckFramebufferStatus host (J a)"
| "dispatch host buf (OClear a) = glClear host (J a)"
| "dispatch host buf (OClearColor r g b a) = glClearColor host r g b a"
| "dispatch host buf (OCompileShader a) = glCompileShader host (J a)"
| "dispatch host buf OCreateBuffer = glCreateBuffer host"
| "dispatch host buf OCreateFramebuffer = glCreateFramebuffer host"
| "dispatch host buf OCreateProgram = glCreateProgram host"
| "dispatch host buf (OCreateShader a) = glCreateShader host (J a)"
| "dispatch host buf OCreateTexture = glCreateTexture host"
| "dispatch host buf (ODeleteBuffer a) = glDeleteBuffer host (J a)"
| "dispatch host buf (ODeleteProgram a) = glDeleteProgram host (J a)"
| "dispatch host buf (ODeleteShader a) = glDeleteShader host (J a)"
| "dispatch host buf (ODeleteTexture a) = glDeleteTexture host (J a)"
| "dispatch host buf (ODepthFunc a) = glDepthFunc host (J a)"
| "dispatch host buf (ODetachShader a b) = glDetachShader host (J a) (J b)"
| "dispatch host buf (ODisable a) = glDisable host (J a)"
| "dispatch host buf (ODrawArrays a b c) = glDrawArrays host (J a) (J b) (J c)"
| "dispatch host buf (OEnable a) = glEnable host (J a)"
| "dispatch host buf (OEnableVertexAttribArray a) = glEnableVertexAttribArray host (J a)"
| "dispatch host buf (OFramebufferTexture2D a b c d e) = glFramebufferTexture2D host (J a) (J b) (J c) (J d) (J e)"
| "dispatch host buf (OFrontFace a) = glFrontFace host (J a)"
| "dispatch host buf (OGetAttribLocation a b c) = glGetAttribLocation host buf (J a) (J b) (J c)"
| "dispatch host buf OGetError = glGetError host"
| "dispatch host buf (OGetUniformLocation a b c) = glGetUniformLocation host buf (J a) (J b) (J c)"
| "dispatch host buf (OLinkProgram a) = glLinkProgram host (J a)"
| "dispatch host buf (OPixelStorei a b) = glPixelStorei host (J a) (J b)"
| "dispatch host buf (OShaderSource a b c) = glShaderSource host buf (J a) (J b) (J c)"
| "dispatch host buf (OTexImage2D a b c d e f g h i k) =
     glTexImage2D host buf (J a) (J b) (J c) (J d) (J e) (J f) (J g) (J h) (J i) (J k)"
| "dispatch host buf (OTexParameterf a b x) = glTexParameterf host (J a) (J b) x"
| "dispatch host buf (OTexParameteri a b c) = glTexParameteri host (J a) (J b) (J c)"
| "dispatch host buf (OUniform1f a x) = glUniform1f host (J a) x"
| "dispatch host buf (OUniform1i a b) = glUniform1i host (J a) (J b)"
| "dispatch host buf (OUniform4f a x y z w) = glUniform4f host (J a) x y z w"
| "dispatch host buf (OUniformMatrix4fv a b c d) = glUniformMatrix4fv host buf (J a) (J b) (J c) (J d)"
| "dispatch host buf (OUseProgram a) = glUseProgram host (J a)"
| "dispatch host buf (OVertexAttribPointer a b c d e f) = glVertexAttribPointer host (J a) (J b) (J c) (J d) (J e) (J f)"
| "dispatch host buf (OViewport a b c d) = glViewport host (J a) (J b) (J c) (J d)"

section \<open>Sequences of calls\<close>

text \<open>
  Each guest call comes with the memory buffer of its own moment (\<open>getMemory()\<close> is called
  again by every method). An exception ends the guest's call, not the bridge: the closure
  keeps its state and the next call starts from it.
\<close>

fun run :: "'h gl_host \<Rightarrow> (mem \<times> op) list \<Rightarrow> 'h glenv \<Rightarrow> (exn + jsval) list \<times> 'h glenv" where
  "run host [] s = ([], s)"
| "run host ((buf, c) # cs) s =
     (case dispatch host buf c s of
        (r, s') \<Rightarrow> (case run host cs s' of (rs, s'') \<Rightarrow> (r # rs, s'')))"

inductive reachable :: "'h gl_host \<Rightarrow> 'h glenv \<Rightarrow> bool" for host :: "'h gl_host" where
  init: "getWebGLEnv getContext = Inr s \<Longrightarrow> reachable host s"
| step: "reachable host s \<Longrightarrow> dispatch host buf c s = (r, s') \<Longrightarrow> reachable host s'"

inductive_cases reachable_stepE: "reachable host s'"


section \<open>What a call reads of memory\<close>

text \<open>
  \<open>mem_read c k\<close>: the call \<open>c\<close> reads byte \<open>k\<close> of the buffer (the range of its view);
  \<open>builds_view c\<close>: the call constructs a typed-array view at all (and so can throw
  \<open>RangeError\<close>). These describe the methods above; they are used to state the frame and
  error properties.
\<close>

fun mem_read :: "op \<Rightarrow> nat \<Rightarrow> bool" where
  "mem_read (OBufferData t count ptr u) k =
     (nat (js_of_i32 ptr) \<le> k \<and> k < nat (js_of_i32 ptr) + nat (4 * js_of_i32 count))"
| "mem_read (OGetAttribLocation p ptr len) k =
     (nat (js_of_i32 ptr) \<le> k \<and> k < nat (js_of_i32 ptr) + nat (js_of_i32 len))"
| "mem_read (OGetUniformLocation p ptr len) k =
     (nat (js_of_i32 ptr) \<le> k \<and> k < nat (js_of_i32 ptr) + nat (js_of_i32 len))"
| "mem_read (OShaderSource sh ptr len) k =
     (nat (js_of_i32 ptr) \<le> k \<and> k < nat (js_of_i32 ptr) + nat (js_of_i32 len))"
| "mem_read (OTexImage2D a b c d e f g h ptr len) k =
     (0 < js_of_i32 len \<and> nat (js_of_i32 ptr) \<le> k \<and> k < nat (js_of_i32 ptr) + nat (js_of_i32 len))"
| "mem_read (OUniformMatrix4fv loc n tr ptr) k =
     (nat (js_of_i32 ptr) \<le> k \<and> k < nat (js_of_i32 ptr) + nat (4 * (js_of_i32 n * 16)))"
| "mem_read c k = False"

fun builds_view :: "op \<Rightarrow> bool" where
  "builds_view (OBufferData t count ptr u) = True"
| "builds_view (OGetAttribLocation p ptr len) = True"
| "builds_view (OGetUniformLocation p ptr len) = True"
| "builds_view (OShaderSource sh ptr len) = True"
| "builds_view (OTexImage2D a b c d e f g h ptr len) = (0 < js_of_i32 len)"
| "builds_view (OUniformMatrix4fv loc n tr ptr) = True"
| "builds_view c = False"

section \<open>Every call keeps every slot or clears it\<close>

lemmas method_defs =
  glActiveTexture_def glAttachShader_def glBindBuffer_def glBindFramebuffer_def glBindTexture_def
  glBlendFunc_def glBufferData_def glCheckFramebufferStatus_def glClear_def glClearColor_def
  glCreateBuffer_def glCreateFramebuffer_def glCreateProgram_def glCreateShader_def
  glCreateTexture_def glDeleteBuffer_def glDeleteProgram_def glDeleteShader_def
  glDeleteTexture_def glDepthFunc_def glDetachShader_def glDisable_def glDrawArrays_def
  glEnable_def glEnableVertexAttribArray_def glFramebufferTexture2D_def glFrontFace_def
  glGetAttribLocation_def glGetError_def glGetUniformLocation_def glPixelStorei_def
  glShaderSource_def glTexImage2D_def glTexParameterf_def glTexParameteri_def glUniform1f_def
  glUniform1i_def glUniform4f_def glUniformMatrix4fv_def glUseProgram_def
  glVertexAttribPointer_def glViewport_def glCompileShader_def glLinkProgram_def

lemma pres_dispatch: "pres tables_kept (dispatch host buf c)"
  by (cases c) (simp_all only: dispatch.simps method_defs; intro pres_intros tables_kept_reflp tables_kept_transp)+

lemma dispatch_tables_kept: "dispatch host buf c s = (r, s') \<Longrightarrow> tables_kept s s'"
  by (rule presD [OF pres_dispatch])

lemma run_tables_kept: "tables_kept s (snd (run host cs s))"
proof (induction cs arbitrary: s)
  case Nil
  then show ?case by simp
next
  case (Cons c cs)
  obtain buf o' where c: "c = (buf, o')" by (cases c)
  obtain r s' where d: "dispatch host buf o' s = (r, s')" by (cases "dispatch host buf o' s")
  have "tables_kept s s'" using d by (rule dispatch_tables_kept)
  moreover have "tables_kept s' (snd (run host cs s'))" by (rule Cons.IH)
  ultimately show ?case using c d by (auto split: prod.splits intro: tables_kept_trans)
qed


section \<open>Single methods\<close>

lemma run_creates:
  assumes "\<forall>g. \<exists>v g'. host CreateBuffer g = (Inr v, g')"
  shows "fst (run host (replicate n (buf, OCreateBuffer)) s) =
           map (\<lambda>i. Inr (JNum (int i))) [length (glBuffers s)..<length (glBuffers s) + n]"
proof (induction n arbitrary: s)
  case 0
  then show ?case by simp
next
  case (Suc n)
  obtain v g' where h: "host CreateBuffer (gl s) = (Inr v, g')" using assms by blast
  let ?s' = "s\<lparr>gl := g', glBuffers := glBuffers s @ [v]\<rparr>"
  have d: "dispatch host buf OCreateBuffer s = (Inr (JNum (int (length (glBuffers s)))), ?s')"
    using h by (simp add: glCreateBuffer_def jsm_simps js_push_def)
  have run: "fst (run host (replicate (Suc n) (buf, OCreateBuffer)) s) =
      Inr (JNum (int (length (glBuffers s)))) # fst (run host (replicate n (buf, OCreateBuffer)) ?s')"
    using d by (simp split: prod.splits)
  have "length (glBuffers ?s') = Suc (length (glBuffers s))" by simp
  with run Suc.IH [of ?s'] show ?case by (simp del: upt_Suc add: upt_conv_Cons)
qed

section \<open>Frames of the memory-reading methods\<close>

lemma glBufferData_frame:
  "length buf' = length buf \<Longrightarrow> \<forall>k. nat ptr \<le> k \<and> k < nat ptr + nat (4 * count) \<longrightarrow> buf' ! k = buf ! k \<Longrightarrow>
   glBufferData host buf' t count ptr u = glBufferData host buf t count ptr u"
  by (simp only: glBufferData_def Float32Array_frame)

lemma glUniformMatrix4fv_frame:
  "length buf' = length buf \<Longrightarrow> \<forall>k. nat ptr \<le> k \<and> k < nat ptr + nat (4 * (n * 16)) \<longrightarrow> buf' ! k = buf ! k \<Longrightarrow>
   glUniformMatrix4fv host buf' loc n tr ptr = glUniformMatrix4fv host buf loc n tr ptr"
  by (simp only: glUniformMatrix4fv_def Float32Array_frame)

lemma glShaderSource_frame:
  "length buf' = length buf \<Longrightarrow> \<forall>k. nat ptr \<le> k \<and> k < nat ptr + nat len \<longrightarrow> buf' ! k = buf ! k \<Longrightarrow>
   glShaderSource host buf' sh ptr len = glShaderSource host buf sh ptr len"
  by (simp only: glShaderSource_def readCharStr_frame)

lemma glGetAttribLocation_frame:
  "length buf' = length buf \<Longrightarrow> \<forall>k. nat ptr \<le> k \<and> k < nat ptr + nat len \<longrightarrow> buf' ! k = buf ! k \<Longrightarrow>
   glGetAttribLocation host buf' p ptr len = glGetAttribLocation host buf p ptr len"
  by (simp only: glGetAttribLocation_def readCharStr_frame)

lemma glGetUniformLocation_frame:
  "length buf' = length buf \<Longrightarrow> \<forall>k. nat ptr \<le> k \<and> k < nat ptr + nat len \<longrightarrow> buf' ! k = buf ! k \<Longrightarrow>
   glGetUniformLocation host buf' p ptr len = glGetUniformLocation host buf p ptr len"
  by (simp only: glGetUniformLocation_def readCharStr_frame)

lemma glTexImage2D_frame:
  assumes "length buf' = length buf" and "\<forall>k. 0 < len \<and> nat ptr \<le> k \<and> k < nat ptr + nat len \<longrightarrow> buf' ! k = buf ! k"
  shows "glTexImage2D host buf' t l i w h b f ty ptr len = glTexImage2D host buf t l i w h b f ty ptr len"
proof (cases "0 < len")
  case True
  with assms have "Uint8Array buf' ptr len = Uint8Array buf ptr len" by (intro Uint8Array_frame) simp_all
  then show ?thesis by (simp add: glTexImage2D_def)
next
  case False
  then show ?thesis by (simp add: glTexImage2D_def)
qed

lemma glTexImage2D_view_cases:
  "map_sum id Some (Uint8Array buf ptr len) = Inl e \<Longrightarrow> e = RangeError"
  "map_sum id Some (Uint8Array buf ptr len) = Inr x \<Longrightarrow> map_sum id Some (Uint8Array (buf @ ext) ptr len) = Inr x"
  by (cases "Uint8Array buf ptr len"; simp add: Uint8Array_Inl Uint8Array_grow)+

end
