(* ===== verification/Reference_Host.thy ===== *)
theory Reference_Host
  imports Dispatch
begin

text \<open>
  A reference instance of the host interface, modelled after the WebGL 1.0 specification
  (it is not code of the repository). It records every call it accepts in a trace, creates
  a fresh object of the right interface for each \<open>create*\<close> and \<open>getUniformLocation\<close>
  call, and applies the WebIDL conversion of object arguments: a non-nullable parameter
  (\<open>attachShader\<close>, \<open>compileShader\<close>, \<open>shaderSource\<close>, \<open>linkProgram\<close>, \<open>getShaderParameter\<close>, \<dots>)
  accepts only an object of its interface, a nullable one (\<open>bindBuffer\<close>, \<open>deleteBuffer\<close>,
  \<open>useProgram\<close>, \<open>uniform*\<close>, \<dots>) also accepts \<open>null\<close> and \<open>undefined\<close>; anything else
  throws \<open>TypeError\<close> before the call has any effect. The outcome of compilation and
  linking and the text of the info log are parameters (\<open>ok\<close>, \<open>log\<close>), so that both
  branches of the Error Translator can be exercised.
\<close>

record webgl =
  next_obj :: nat
  trace :: "gl_call list"

definition obj_arg :: "gl_kind \<Rightarrow> jsval \<Rightarrow> bool" where
  "obj_arg k v = (case v of JObj k' n \<Rightarrow> k' = k | _ \<Rightarrow> False)"

definition nullable_arg :: "gl_kind \<Rightarrow> jsval \<Rightarrow> bool" where
  "nullable_arg k v = (v = JNull \<or> v = JUndef \<or> obj_arg k v)"

fun idl_ok :: "gl_call \<Rightarrow> bool" where
  "idl_ok (AttachShader p sh) = (obj_arg KProgram p \<and> obj_arg KShader sh)"
| "idl_ok (BindBuffer t b) = nullable_arg KBuffer b"
| "idl_ok (BindFramebuffer t f) = nullable_arg KFramebuffer f"
| "idl_ok (BindTexture t x) = nullable_arg KTexture x"
| "idl_ok (CompileShader sh) = obj_arg KShader sh"
| "idl_ok (GetShaderParameter sh p) = obj_arg KShader sh"
| "idl_ok (GetShaderInfoLog sh) = obj_arg KShader sh"
| "idl_ok (DeleteBuffer b) = nullable_arg KBuffer b"
| "idl_ok (DeleteProgram p) = nullable_arg KProgram p"
| "idl_ok (DeleteShader sh) = nullable_arg KShader sh"
| "idl_ok (DeleteTexture x) = nullable_arg KTexture x"
| "idl_ok (DetachShader p sh) = (obj_arg KProgram p \<and> obj_arg KShader sh)"
| "idl_ok (FramebufferTexture2D t a tt x l) = nullable_arg KTexture x"
| "idl_ok (GetAttribLocation p n) = obj_arg KProgram p"
| "idl_ok (GetUniformLocation p n) = obj_arg KProgram p"
| "idl_ok (LinkProgram p) = obj_arg KProgram p"
| "idl_ok (GetProgramParameter p n) = obj_arg KProgram p"
| "idl_ok (GetProgramInfoLog p) = obj_arg KProgram p"
| "idl_ok (ShaderSource sh src) = obj_arg KShader sh"
| "idl_ok (Uniform1f l x) = nullable_arg KUniformLocation l"
| "idl_ok (Uniform1i l x) = nullable_arg KUniformLocation l"
| "idl_ok (Uniform4f l x y z w) = nullable_arg KUniformLocation l"
| "idl_ok (UniformMatrix4fv l t fs) = nullable_arg KUniformLocation l"
| "idl_ok (UseProgram p) = nullable_arg KProgram p"
| "idl_ok c = True"

definition fresh :: "gl_kind \<Rightarrow> webgl \<Rightarrow> (exn + jsval) \<times> webgl" where
  "fresh k w = (Inr (JObj k (next_obj w)), w\<lparr>next_obj := Suc (next_obj w)\<rparr>)"

fun ref_reply :: "bool \<Rightarrow> jstring \<Rightarrow> gl_call \<Rightarrow> webgl \<Rightarrow> (exn + jsval) \<times> webgl" where
  "ref_reply ok log CreateBuffer w = fresh KBuffer w"
| "ref_reply ok log CreateFramebuffer w = fresh KFramebuffer w"
| "ref_reply ok log CreateProgram w = fresh KProgram w"
| "ref_reply ok log (CreateShader t) w = fresh KShader w"
| "ref_reply ok log CreateTexture w = fresh KTexture w"
| "ref_reply ok log (GetUniformLocation p n) w = fresh KUniformLocation w"
| "ref_reply ok log (GetShaderParameter sh p) w = (Inr (JBool ok), w)"
| "ref_reply ok log (GetProgramParameter p n) w = (Inr (JBool ok), w)"
| "ref_reply ok log (GetShaderInfoLog sh) w = (Inr (JStr log), w)"
| "ref_reply ok log (GetProgramInfoLog p) w = (Inr (JStr log), w)"
| "ref_reply ok log GetError w = (Inr (JNum 0), w)"
| "ref_reply ok log (CheckFramebufferStatus t) w = (Inr (JNum 36053), w)"
| "ref_reply ok log (GetAttribLocation p n) w = (Inr (JNum 0), w)"
| "ref_reply ok log c w = (Inr JUndef, w)"

definition ref_host :: "bool \<Rightarrow> jstring \<Rightarrow> webgl gl_host" where
  "ref_host ok log c w =
     (if idl_ok c then ref_reply ok log c (w\<lparr>trace := trace w @ [c]\<rparr>) else (Inl TypeError, w))"

definition ref_ctx :: webgl where
  "ref_ctx = \<lparr>next_obj = 0, trace = []\<rparr>"

definition ref_env :: "webgl glenv" where
  "ref_env = \<lparr>gl = ref_ctx, glShaders = [], glPrograms = [], glBuffers = [], glTextures = [],
              glFramebuffers = [], glUniformLocations = []\<rparr>"

text \<open>A canvas that supports WebGL: \<open>getContext('webgl', attrs)\<close> gives the context.\<close>

definition ref_canvas :: "jstring \<Rightarrow> context_attributes \<Rightarrow> webgl option" where
  "ref_canvas name attrs = (if name = js_str ''webgl'' then Some ref_ctx else None)"

text \<open>
  The invariant of the reachable states: every slot of the table of kind \<open>K\<close> is
  undefined or an object of interface \<open>K\<close> the context has created (\<open>issued\<close>).
  \<open>inv_kept\<close> is the relation "the invariant before implies it after", which is reflexive
  and transitive and so composes through \<open>pres\<close>.
\<close>

definition issued :: "gl_kind \<Rightarrow> webgl \<Rightarrow> jsval \<Rightarrow> bool" where
  "issued K w v = (case v of JUndef \<Rightarrow> True | JObj k n \<Rightarrow> k = K \<and> n < next_obj w | _ \<Rightarrow> False)"

definition kinds :: "gl_kind list" where
  "kinds = [KShader, KProgram, KBuffer, KTexture, KFramebuffer, KUniformLocation]"

definition ref_inv :: "webgl glenv \<Rightarrow> bool" where
  "ref_inv s = list_all (\<lambda>K. list_all (issued K (gl s)) (table K s)) kinds"

definition inv_kept :: "webgl glenv \<Rightarrow> webgl glenv \<Rightarrow> bool" where
  "inv_kept s s' \<longleftrightarrow> (ref_inv s \<longrightarrow> ref_inv s')"

lemma getWebGLEnv_ref: "getWebGLEnv ref_canvas = Inr ref_env"
  by (simp add: getWebGLEnv_def ref_canvas_def ref_env_def)

section \<open>Reachable states of the bridge over the reference context\<close>

lemma set_kinds [simp]: "set kinds = UNIV"
proof -
  have "K \<in> set kinds" for K by (cases K) (simp_all add: kinds_def)
  then show ?thesis by blast
qed

lemma ref_inv_iff: "ref_inv s \<longleftrightarrow> (\<forall>K. \<forall>v \<in> set (table K s). issued K (gl s) v)"
  by (simp add: ref_inv_def list_all_iff)

lemma issued_mono: "issued K w v \<Longrightarrow> next_obj w \<le> next_obj w' \<Longrightarrow> issued K w' v"
  by (auto simp: issued_def split: jsval.splits)

lemma ref_reply_next_mono: "next_obj w \<le> next_obj (snd (ref_reply ok log c w))"
  by (cases c) (simp_all add: fresh_def)

lemma ref_host_next_mono: "next_obj w \<le> next_obj (snd (ref_host ok log c w))"
  using ref_reply_next_mono [of "w\<lparr>trace := trace w @ [c]\<rparr>" ok log c] by (simp add: ref_host_def)

lemma inv_kept_reflp [simp, intro]: "reflp inv_kept"
  by (simp add: reflp_def inv_kept_def)

lemma inv_kept_transp [simp, intro]: "transp inv_kept"
  by (simp add: transp_def inv_kept_def)

lemma pres_ref_invoke: "pres inv_kept (gl_invoke (ref_host ok log) c)"
  unfolding pres_def inv_kept_def ref_inv_iff
proof (intro allI impI ballI)
  fix s K v
  assume "\<forall>K. \<forall>v\<in>set (table K s). issued K (gl s) v" and "v \<in> set (table K (snd (gl_invoke (ref_host ok log) c s)))"
  then have "issued K (gl s) v" by (simp add: gl_invoke_app)
  then show "issued K (gl (snd (gl_invoke (ref_host ok log) c s))) v"
    by (rule issued_mono) (simp add: gl_invoke_app ref_host_next_mono)
qed

lemma set_js_set_undefined: "set (js_set_undefined t i) \<subseteq> insert JUndef (set t)"
  by (auto simp: js_set_undefined_def dest: set_update_subset_insert [THEN subsetD])

lemma pres_ref_tombstone: "pres inv_kept (tombstone K i)"
  unfolding pres_def inv_kept_def ref_inv_iff
proof (intro allI impI ballI)
  fix s K' v
  assume inv: "\<forall>K. \<forall>v\<in>set (table K s). issued K (gl s) v"
    and v: "v \<in> set (table K' (snd (tombstone K i s)))"
  show "issued K' (gl (snd (tombstone K i s))) v"
  proof (cases "K' = K")
    case True
    with v set_js_set_undefined [of "table K s" i] inv show ?thesis
      by (auto simp: tombstone_app issued_def)
  next
    case False
    with v inv show ?thesis by (simp add: tombstone_app)
  qed
qed

lemma pres_ref_create:
  assumes "\<And>w. ref_reply ok log c w = fresh K w"
  shows "pres inv_kept (js_bind (gl_invoke (ref_host ok log) c) (push_handle K))"
  unfolding pres_def inv_kept_def ref_inv_iff
proof (intro allI impI ballI)
  fix s K' v
  assume inv: "\<forall>K. \<forall>v\<in>set (table K s). issued K (gl s) v"
    and v: "v \<in> set (table K' (snd (js_bind (gl_invoke (ref_host ok log) c) (push_handle K) s)))"
  let ?w = "gl s\<lparr>trace := trace (gl s) @ [c]\<rparr>"
  have old: "issued K'' (gl s) u \<Longrightarrow> issued K'' (?w\<lparr>next_obj := Suc (next_obj ?w)\<rparr>) u" for K'' u
    by (erule issued_mono) simp
  show "issued K' (gl (snd (js_bind (gl_invoke (ref_host ok log) c) (push_handle K) s))) v"
  proof (cases "idl_ok c")
    case False
    with v inv show ?thesis by (simp add: ref_host_def jsm_simps)
  next
    case True
    then have h: "ref_host ok log c (gl s) = (Inr (JObj K (next_obj (gl s))), ?w\<lparr>next_obj := Suc (next_obj ?w)\<rparr>)"
      by (simp add: ref_host_def assms fresh_def)
    show ?thesis
    proof (cases "K' = K")
      case True
      with v inv h old show ?thesis by (auto simp: jsm_simps js_push_def issued_def)
    next
      case False
      with v inv h old show ?thesis by (auto simp: jsm_simps)
    qed
  qed
qed

lemma pres_ref_dispatch: "pres inv_kept (dispatch (ref_host ok log) buf c)"
  by (cases c; simp only: dispatch.simps method_defs js_void_def;
      intro pres_ref_create pres_ref_invoke pres_ref_tombstone pres_intros inv_kept_reflp inv_kept_transp;
      simp)

lemma ref_inv_reachable: "reachable (ref_host ok log) s \<Longrightarrow> ref_inv s"
proof (induction rule: reachable.induct)
  case (init g s)
  then show ?case by (auto simp: getWebGLEnv_def ref_inv_def kinds_def split: option.splits)
next
  case (step s buf c r s')
  then show ?case using presD [OF pres_ref_dispatch step.hyps(2)] by (simp add: inv_kept_def)
qed

end
