(* ===== verification/Call_Effects.thy ===== *)
theory Call_Effects
  imports Dispatch
begin

text \<open>
  What each entry point of the Dispatch Surface may change and what it returns, read off
  the methods of \<open>src/js/oxid_webgl.js\<close>. \<open>writes c\<close> is the one handle table the call
  \<open>c\<close> assigns (\<open>push\<close> in the \<open>glCreate*\<close> methods and \<open>glGetUniformLocation_\<close>, the
  tombstone in the \<open>glDelete*\<close> methods), if any. \<open>result_of c\<close> is what the method returns:
  nothing (\<open>undefined\<close>), a handle of a table (\<open>return t.length - 1\<close>), or the value of a
  host query (\<open>return gl.getError()\<close>, \<open>gl.checkFramebufferStatus\<close>,
  \<open>gl.getAttribLocation\<close>); \<open>result_ok\<close> says that a value has that shape in the state
  after the call. \<open>table_same K\<close> relates two states with the same table \<open>K\<close>; the lemmas
  show it is kept, through \<open>pres\<close>, by every call that does not write \<open>K\<close>.
\<close>

fun writes :: "op \<Rightarrow> gl_kind option" where
  "writes OCreateBuffer = Some KBuffer"
| "writes OCreateFramebuffer = Some KFramebuffer"
| "writes OCreateProgram = Some KProgram"
| "writes (OCreateShader t) = Some KShader"
| "writes OCreateTexture = Some KTexture"
| "writes (ODeleteBuffer h) = Some KBuffer"
| "writes (ODeleteProgram h) = Some KProgram"
| "writes (ODeleteShader h) = Some KShader"
| "writes (ODeleteTexture h) = Some KTexture"
| "writes (OGetUniformLocation p ptr len) = Some KUniformLocation"
| "writes c = None"

datatype result_kind = RVoid | RHandle gl_kind | RHost

fun result_of :: "op \<Rightarrow> result_kind" where
  "result_of OCreateBuffer = RHandle KBuffer"
| "result_of OCreateFramebuffer = RHandle KFramebuffer"
| "result_of OCreateProgram = RHandle KProgram"
| "result_of (OCreateShader t) = RHandle KShader"
| "result_of OCreateTexture = RHandle KTexture"
| "result_of (OGetUniformLocation p ptr len) = RHandle KUniformLocation"
| "result_of (OCheckFramebufferStatus t) = RHost"
| "result_of (OGetAttribLocation p ptr len) = RHost"
| "result_of OGetError = RHost"
| "result_of c = RVoid"

fun result_ok :: "result_kind \<Rightarrow> 'h glenv \<Rightarrow> jsval \<Rightarrow> bool" where
  "result_ok RVoid s v = (v = JUndef)"
| "result_ok (RHandle K) s v = (0 < length (table K s) \<and> v = JNum (int (length (table K s)) - 1))"
| "result_ok RHost s v = True"

definition table_same :: "gl_kind \<Rightarrow> 'h glenv \<Rightarrow> 'h glenv \<Rightarrow> bool" where
  "table_same K s s' \<longleftrightarrow> table K s' = table K s"

lemma table_same_reflp [simp, intro]: "reflp (table_same K)"
  by (simp add: reflp_def table_same_def)

lemma table_same_transp [simp, intro]: "transp (table_same K)"
  by (simp add: transp_def table_same_def)

lemma pres_gl_invoke_same [pres_intros]: "pres (table_same K) (gl_invoke host c)"
  by (simp add: pres_def table_same_def gl_invoke_app)

lemma pres_push_handle_other: "K' \<noteq> K \<Longrightarrow> pres (table_same K) (push_handle K' v)"
  by (simp add: pres_def table_same_def push_handle_app)

lemma pres_tombstone_other: "K' \<noteq> K \<Longrightarrow> pres (table_same K) (tombstone K' i)"
  by (simp add: pres_def table_same_def tombstone_app)

lemma pres_dispatch_other:
  "writes c \<noteq> Some K \<Longrightarrow> pres (table_same K) (dispatch host buf c)"
  by (cases c; simp only: dispatch.simps method_defs js_void_def writes.simps option.inject option.distinct simp_thms;
      (intro pres_intros table_same_reflp table_same_transp pres_push_handle_other pres_tombstone_other | assumption)+)

end
