(* ===== verification/Spec2Isabelle.thy ===== *)
theory Spec2Isabelle
  imports Reference_Host Call_Effects
begin

text \<open>
  \<^bold>\<open>A verification development of the oxid WebGL bridge.\<close>

  The program is one JavaScript file, \<open>src/js/oxid_webgl.js\<close>: the function
  \<open>getWebGLEnv(canvas_element, getMemory)\<close>, which a WebAssembly guest imports. It obtains a
  WebGL context from the canvas (or throws), creates six handle tables (arrays of host
  objects) and returns an object of 44 entry points. Each entry point takes plain i32/f32
  arguments from the guest, resolves handles through the tables, decodes memory arguments
  from the current \<open>getMemory().buffer\<close>, and forwards one or more calls to the context.
  \<open>glCompileShader\<close> and \<open>glLinkProgram\<close> read a status back and throw the info log.

  \<^bold>\<open>Theories and what they model.\<close>
  \<^item> \<open>Prelude\<close>: the machine types (\<open>byte\<close>, \<open>i32\<close>, \<open>f32\<close> as words; a JavaScript string as
    a list of UTF-16 code units), \<open>js_of_i32\<close> (the wasm-to-JavaScript conversion of an i32,
    a signed read), the exceptions \<open>exn\<close>, and the exception-and-state monad \<open>jsm\<close>
    (\<open>js_ret\<close>, \<open>js_throw\<close>, \<open>js_bind\<close>, \<open>js_lift\<close>, \<open>js_get\<close>, \<open>js_modify\<close>) in which every entry
    point is written. \<open>pres R m\<close> says that \<open>m\<close> keeps a relation between the state before and
    after, on every outcome; the collections \<open>jsm_simps\<close> and \<open>pres_intros\<close> carry the proofs.
  \<^item> \<open>Memory\<close>: the Marshaller (source lines 2--9, 47, 152, 171). \<open>typed_view\<close> is the ECMAScript
    typed-array constructor (\<open>RangeError\<close> for a negative, misaligned or out-of-range view),
    \<open>Uint8Array\<close> and \<open>Float32Array\<close> its two instances (floats read little-endian),
    \<open>readCharStr\<close> with its loop, both as the recursion \<open>read_chars\<close> and as the
    \<open>while_option\<close> loop \<open>read_chars_loop\<close> over \<open>(i, s)\<close>. The memory is the \<open>mem\<close> argument of each call,
    which is how the model says that every call reacquires \<open>getMemory().buffer\<close>.
  \<^item> \<open>JS_Values\<close>: the values crossing the host boundary (\<open>jsval\<close>), ToBoolean (\<open>js_truthy\<close>)
    and ToString (\<open>js_to_string\<close>), which the error messages use.
  \<^item> \<open>Handle_Tables\<close>: the array operations of the tables (lines 20--25, 66--67, 87):
    \<open>js_index\<close> (\<open>t[i]\<close>), \<open>js_push\<close>, \<open>js_set_undefined\<close> (\<open>t[i] = undefined\<close>, holes included);
    the invariant \<open>slot_kept\<close>; and the abstract contract of spec section 4.1 (\<open>htable\<close>,
    \<open>ht_create\<close>, \<open>ht_resolve\<close>, \<open>ht_delete\<close> with \<open>InvalidHandle\<close>) with the refinement map
    \<open>ht_abs\<close>.
  \<^item> \<open>Host_API\<close>: the interface to the rendering context. \<open>gl_call\<close> has one constructor per
    context method the bridge calls; a host \<open>'h gl_host\<close> answers a call with a value or an
    exception and a new context state \<open>'h\<close>. \<open>glenv\<close> is the closure state of
    \<open>getWebGLEnv\<close> (the context and the six tables); \<open>push_handle\<close> and \<open>tombstone\<close> are the
    two table updates of the entry points.
  \<^item> \<open>Error_Translator\<close>: \<open>glCompileShader\<close> (lines 59--64) and \<open>glLinkProgram\<close> (137--142),
    with the exceptions \<open>compile_error\<close> and \<open>link_error\<close> they throw (a raw string).
  \<^item> \<open>Dispatch\<close>: \<open>getWebGLEnv\<close> (lines 11--25; \<open>canvas_element.getContext\<close> is its
    argument, called with \<open>'webgl'\<close> and \<open>webgl_attributes\<close>) and every other entry point (lines 28--182),
    one definition each under the source's name; \<open>op\<close> is a guest call with its raw i32/f32
    arguments, \<open>dispatch\<close> converts them (\<open>js_of_i32\<close>) and runs the entry point, \<open>run\<close> a
    sequence of calls, each with the memory of its moment, and \<open>reachable\<close> the states a
    host allows from a start state.
  \<^item> \<open>Call_Effects\<close>: what each guest call may write (\<open>writes\<close>: the one table of its
    create, delete or \<open>getUniformLocation\<close>) and what it returns (\<open>result_of\<close>,
    \<open>result_ok\<close>), with the frame relation \<open>table_same\<close> composed through \<open>pres\<close>.
  \<^item> \<open>Reference_Host\<close>: one concrete host, \<open>ref_host\<close>, which checks the WebGL 1.0 IDL
    nullability of object arguments (\<open>TypeError\<close>), returns fresh objects and records a
    trace of calls, and a canvas \<open>ref_canvas\<close> that provides it. It is used by the
    concrete witnesses and by the invariant of reachable states (\<open>ref_inv\<close>, proved by
    rule induction on \<open>reachable\<close>); every other theorem about the bridge holds for every
    host.

  \<^bold>\<open>What is shown.\<close>
  Handle tables: every entry point, on every outcome and with any host, keeps every slot of
  every table (C1, via \<open>pres_dispatch\<close>); a deleted handle stays dead under any later calls
  (C2); creation returns \<open>0 .. n-1\<close> (C3). The entry points refine the abstract contract of
  spec section 4.1 through \<open>ht_abs\<close>: \<open>glCreateBuffer\<close> is its \<open>create\<close> (C4),
  \<open>glBindBuffer\<close> passes the object its \<open>resolve\<close> gives (C5), \<open>glDeleteBuffer\<close> on a live
  handle is its \<open>delete\<close> (C6); they depart from it on a second delete (C21), an unissued
  delete (C23) and a stale handle (C24). Error translation: the exact message and state on
  failure and success of compile and link (C7--C9, C31); with a host that never throws, the
  only exceptions are \<open>RangeError\<close> of a view and the two compile/link messages (C10).
  Marshalling, each stated of the entry point: \<open>readCharStr\<close> exactly (C11, C12), the matrix
  count (C13), the null texture data (C14), the floats \<open>glBufferData\<close> passes (C17), the
  source \<open>glShaderSource_\<close> passes (C18), the bytes \<open>glTexImage2D\<close> passes (C22), alignment
  and high pointers (C19, C20). Memory: a call reads only the bytes of its ranges (C15) and
  a call that worked works the same after memory growth (C16), the property behind the rule
  that views are never cached. Queries: \<open>glGetUniformLocation_\<close> allocates (C25),
  \<open>glGetAttribLocation_\<close> returns the host's answer and allocates nothing (C27);
  initialisation, with the context attributes (C26).
  Calls compose safely: each writes at most its own table (C29), returns a value of the
  type its method promises (C30), and over the reference context every reachable state
  files each object in the table of its own kind (C28, rule induction on \<open>reachable\<close>),
  where creation always succeeds with a handle to an object in no table (C33).
  The loop of \<open>readCharStr\<close>, kept as a \<open>while_option\<close> loop, terminates after exactly
  \<open>len\<close> iterations (C32, from the definition of \<open>while_option\<close>).

  \<^bold>\<open>Choices.\<close> No fuel or bound is needed: every function of the model terminates
  (\<open>read_chars\<close> by the measure \<open>len - i\<close>); the context is a parameter, so nothing is
  assumed about it. Numbers in the tables and arguments are integers: the bridge only
  handles integral Numbers (handles, enums, the i32 arguments), and an f32 argument is kept
  as its bit pattern, which the bridge passes through unchanged.

  \<^bold>\<open>Not modelled.\<close> The WebGL implementation itself (the host is abstract; what it does
  with the context attributes is its own); \<open>getMemory\<close> itself, which belongs to the host
  integration and is modelled by the buffer each call receives; the conversion of
  an entry point's return value back to a wasm result (the model returns the JavaScript
  value); canonicalisation of NaN payloads in f32 arguments; the little-endian byte order
  is taken as the platform's; exhaustion of memory or of the array length limit \<open>2^32 - 1\<close>
  (unreachable with i32 handles and pushes of one element per call).
\<close>

abbreviation (input) H_ok :: "webgl gl_host" where "H_ok \<equiv> ref_host True []"

abbreviation (input) H_fail :: "webgl gl_host" where
  "H_fail \<equiv> ref_host False (js_str ''ERROR: 0:1: syntax error'')"

lemmas ref_simps = ref_env_def ref_ctx_def ref_host_def fresh_def method_defs jsm_simps js_push_def
  js_index_def js_set_undefined_def js_of_i32_def nullable_arg_def obj_arg_def

text \<open>A successful \<open>glDeleteBuffer\<close> has tombstoned its slot and returned undefined.\<close>

lemma glDeleteBuffer_Inr:
  "glDeleteBuffer host i s = (Inr r, s') \<Longrightarrow> glBuffers s' = js_set_undefined (glBuffers s) i \<and> r = JUndef"
  by (auto simp: glDeleteBuffer_def jsm_simps split: prod.splits sum.splits)

text \<open>
  C1: every call of the guest, with any host, any memory and any outcome (an exception included), keeps every slot of every handle table: the table does not shrink and each slot keeps its value or becomes undefined. A handle, once issued, always names the same slot and never another object.
\<close>

theorem dispatch_keeps_slots:
  assumes "dispatch host buf c s = (r, s')"
  shows "length (table K s) \<le> length (table K s') \<and>
         (\<forall>j < length (table K s). table K s' ! j = table K s ! j \<or> table K s' ! j = JUndef)"
  using dispatch_tables_kept [OF assms] by (simp add: tables_kept_def slot_kept_def)

theorem dispatch_keeps_slots_witness:
  "let H = ref_host True []; s = snd (run H [([], OCreateBuffer)] ref_env);
       s' = snd (dispatch H [] (ODeleteBuffer 0) s)
   in table KBuffer s = [JObj KBuffer 0] \<and> table KBuffer s' = [JUndef] \<and>
      length (table KBuffer s) \<le> length (table KBuffer s')"
  using dispatch_keeps_slots [where host = "ref_host True []" and buf = "[]" and c = "ODeleteBuffer 0"
      and s = "snd (run (ref_host True []) [([], OCreateBuffer)] ref_env)" and K = KBuffer,
      OF surjective_pairing]
  by (simp add: ref_env_def ref_ctx_def ref_host_def fresh_def method_defs jsm_simps js_push_def
      js_index_def js_set_undefined_def js_of_i32_def nullable_arg_def obj_arg_def)

text \<open>
  C2: after a successful \<open>glDeleteBuffer(h)\<close>, resolving \<open>h\<close> yields undefined after any later sequence of calls: a deleted handle never again resolves to an object (the test of the specification, section 8).
\<close>

theorem deleted_handle_stays_dead:
  assumes "dispatch host buf (ODeleteBuffer h) s = (Inr r, s_del)" and "0 \<le> js_of_i32 h"
  shows "js_index (glBuffers (snd (run host cs s_del))) (js_of_i32 h) = JUndef"
proof -
  have "glDeleteBuffer host (js_of_i32 h) s = (Inr r, s_del)" using assms(1) by simp
  then have del: "glBuffers s_del = js_set_undefined (glBuffers s) (js_of_i32 h)"
    by (auto simp: glDeleteBuffer_def jsm_simps split: prod.splits sum.splits)
  then have "js_index (glBuffers s_del) (js_of_i32 h) = JUndef" by simp
  moreover have "nat (js_of_i32 h) < length (glBuffers s_del)"
    using del assms(2) by (simp add: length_js_set_undefined)
  moreover have "slot_kept (glBuffers s_del) (glBuffers (snd (run host cs s_del)))"
    using run_tables_kept [of s_del host cs] by (simp add: tables_kept_def) (metis table.simps(3))
  ultimately show ?thesis using assms(2) by (blast intro: slot_kept_undef)
qed

theorem deleted_handle_stays_dead_witness:
  "let s = snd (run H_ok [([], OCreateBuffer)] ref_env);
       cs = [([], OCreateBuffer), ([], OBindBuffer 34962 0)]
   in dispatch H_ok [] (ODeleteBuffer 0) s = (Inr JUndef, snd (dispatch H_ok [] (ODeleteBuffer 0) s)) \<and>
      0 \<le> js_of_i32 0 \<and>
      js_index (glBuffers (snd (run H_ok cs (snd (dispatch H_ok [] (ODeleteBuffer 0) s))))) (js_of_i32 0) = JUndef"
  using deleted_handle_stays_dead [where host = H_ok and buf = "[]" and h = 0 and r = JUndef
      and s = "snd (run H_ok [([], OCreateBuffer)] ref_env)"
      and s_del = "snd (dispatch H_ok [] (ODeleteBuffer 0) (snd (run H_ok [([], OCreateBuffer)] ref_env)))"
      and cs = "[([], OCreateBuffer), ([], OBindBuffer 34962 0)]"]
  by (simp add: ref_simps)

text \<open>
  C3: creating \<open>n\<close> buffers in sequence in a fresh table returns the handles \<open>0, 1, ..., n-1\<close> in that order, for any host whose \<open>createBuffer\<close> returns (the test of the specification, section 8).
\<close>

theorem create_handles_sequential:
  assumes "\<forall>g. \<exists>v g'. host CreateBuffer g = (Inr v, g')" and "glBuffers s = []"
  shows "fst (run host (replicate n (buf, OCreateBuffer)) s) = map (\<lambda>i. Inr (JNum (int i))) [0..<n]"
  using run_creates [where host = host, OF assms(1)] assms(2) by simp

theorem create_handles_sequential_witness:
  "(\<forall>g. \<exists>v g'. H_ok CreateBuffer g = (Inr v, g')) \<and> glBuffers ref_env = [] \<and>
   fst (run H_ok (replicate 3 ([], OCreateBuffer)) ref_env) = [Inr (JNum 0), Inr (JNum 1), Inr (JNum 2)]"
proof -
  have h: "\<forall>g. \<exists>v g'. H_ok CreateBuffer g = (Inr v, g')" by (simp add: ref_host_def fresh_def)
  have e: "glBuffers ref_env = []" by (simp add: ref_env_def)
  show ?thesis using create_handles_sequential [where host = H_ok and s = ref_env and n = 3 and buf = "[]", OF h e] h e by (simp add: upt_rec)
qed

text \<open>
  C4: \<open>glCreateBuffer\<close> implements the contract's \<open>create\<close>: when the host returns a buffer
  object, the entry point returns the handle the contract issues, and the buffer table it
  leaves, read through \<open>ht_abs\<close>, is the contract's table after \<open>create\<close>.
\<close>

theorem glCreateBuffer_refines_create:
  assumes "host CreateBuffer (gl s) = (Inr v, g')" and "v \<noteq> JUndef"
  shows "\<exists>h s'. dispatch host buf OCreateBuffer s = (Inr (JNum (int h)), s') \<and>
                ht_create v (ht_abs (glBuffers s)) = (h, ht_abs (glBuffers s'))"
proof -
  obtain r s' where d: "dispatch host buf OCreateBuffer s = (r, s')"
    by (cases "dispatch host buf OCreateBuffer s")
  with assms(1) have "r = Inr (JNum (int (length (glBuffers s))))" and "glBuffers s' = js_push (glBuffers s) v"
    by (auto simp: glCreateBuffer_def jsm_simps)
  with d show ?thesis using ht_create_abs_push [OF assms(2)] by auto
qed

theorem glCreateBuffer_refines_create_witness:
  "H_ok CreateBuffer (gl ref_env) = (Inr (JObj KBuffer 0), \<lparr>next_obj = 1, trace = [CreateBuffer]\<rparr>) \<and>
   JObj KBuffer 0 \<noteq> JUndef \<and>
   (\<exists>h s'. dispatch H_ok [] OCreateBuffer ref_env = (Inr (JNum (int h)), s') \<and>
          ht_create (JObj KBuffer 0) (ht_abs (glBuffers ref_env)) = (h, ht_abs (glBuffers s')))"
proof -
  have c: "H_ok CreateBuffer (gl ref_env) = (Inr (JObj KBuffer 0), \<lparr>next_obj = 1, trace = [CreateBuffer]\<rparr>)"
    by (simp add: ref_simps)
  show ?thesis using glCreateBuffer_refines_create [where host = H_ok and buf = "[]", OF c] c by simp
qed

text \<open>
  C5: \<open>glBindBuffer\<close> implements the contract's \<open>resolve\<close>: for every handle the contract
  resolves to an object, the host's \<open>bindBuffer\<close> receives exactly that object.
\<close>

theorem glBindBuffer_refines_resolve:
  assumes "ht_resolve (ht_abs (glBuffers s)) (nat (js_of_i32 b)) = Inr v" and "0 \<le> js_of_i32 b"
  shows "dispatch host buf (OBindBuffer t b) s = js_void (gl_invoke host (BindBuffer (js_of_i32 t) v)) s"
proof -
  have "js_index (glBuffers s) (js_of_i32 b) = v"
    using assms ht_resolve_abs [of "glBuffers s" "nat (js_of_i32 b)"] by (simp split: if_splits)
  then show ?thesis by (simp add: glBindBuffer_def jsm_simps)
qed

theorem glBindBuffer_refines_resolve_witness:
  "let s = snd (dispatch H_ok [] OCreateBuffer ref_env) in
   ht_resolve (ht_abs (glBuffers s)) (nat (js_of_i32 0)) = Inr (JObj KBuffer 0) \<and> 0 \<le> js_of_i32 0 \<and>
   dispatch H_ok [] (OBindBuffer 34962 0) s =
     js_void (gl_invoke H_ok (BindBuffer (js_of_i32 34962) (JObj KBuffer 0))) s"
proof -
  let ?s = "snd (dispatch H_ok [] OCreateBuffer ref_env)"
  have r: "ht_resolve (ht_abs (glBuffers ?s)) (nat (js_of_i32 0)) = Inr (JObj KBuffer 0)"
    by (simp add: ref_simps ht_resolve_def ht_abs_def)
  have z: "0 \<le> js_of_i32 0" by (simp add: js_of_i32_def)
  show ?thesis
    using glBindBuffer_refines_resolve [OF r z, where host = H_ok and buf = "[]" and t = 34962] r z
    by (simp only: Let_def)
qed

text \<open>
  C6: on a live handle, \<open>glDeleteBuffer\<close> implements the contract's \<open>delete\<close>: when the
  host's \<open>deleteBuffer\<close> returns, the entry point returns undefined and leaves the buffer
  table that, read through \<open>ht_abs\<close>, is the contract's table after \<open>delete\<close>.
\<close>

theorem glDeleteBuffer_refines_delete:
  assumes "ht_delete (ht_abs (glBuffers s)) (nat (js_of_i32 h)) = Inr a'" and "0 \<le> js_of_i32 h"
    and "host (DeleteBuffer (js_index (glBuffers s) (js_of_i32 h))) (gl s) = (Inr r, g')"
  shows "\<exists>s'. dispatch host buf (ODeleteBuffer h) s = (Inr JUndef, s') \<and> ht_abs (glBuffers s') = a'"
proof -
  obtain x s' where d: "dispatch host buf (ODeleteBuffer h) s = (x, s')"
    by (cases "dispatch host buf (ODeleteBuffer h) s")
  with assms(3) have x: "x = Inr JUndef" by (auto simp: glDeleteBuffer_def jsm_simps)
  with d have "glDeleteBuffer host (js_of_i32 h) s = (Inr JUndef, s')" by simp
  then have "glBuffers s' = js_set_undefined (glBuffers s) (js_of_i32 h)" by (rule glDeleteBuffer_Inr [THEN conjunct1])
  moreover have "a' = ht_abs (js_set_undefined (glBuffers s) (int (nat (js_of_i32 h))))"
    by (rule ht_delete_abs_tombstone [OF assms(1)])
  ultimately show ?thesis using d x assms(2) by auto
qed

theorem glDeleteBuffer_refines_delete_witness:
  "let s = snd (dispatch H_ok [] OCreateBuffer ref_env) in
   ht_delete (ht_abs (glBuffers s)) (nat (js_of_i32 0)) = Inr (ht_abs [JUndef]) \<and> 0 \<le> js_of_i32 0 \<and>
   H_ok (DeleteBuffer (js_index (glBuffers s) (js_of_i32 0))) (gl s) =
     (Inr JUndef, \<lparr>next_obj = 1, trace = [CreateBuffer, DeleteBuffer (JObj KBuffer 0)]\<rparr>) \<and>
   (\<exists>s'. dispatch H_ok [] (ODeleteBuffer 0) s = (Inr JUndef, s') \<and> ht_abs (glBuffers s') = ht_abs [JUndef])"
proof -
  let ?s = "snd (dispatch H_ok [] OCreateBuffer ref_env)"
  have a: "ht_delete (ht_abs (glBuffers ?s)) (nat (js_of_i32 0)) = Inr (ht_abs [JUndef])"
    by (simp add: ref_simps ht_delete_def ht_abs_def fun_eq_iff domIff)
  have z: "0 \<le> js_of_i32 0" by (simp add: js_of_i32_def)
  have c: "H_ok (DeleteBuffer (js_index (glBuffers ?s) (js_of_i32 0))) (gl ?s) =
     (Inr JUndef, \<lparr>next_obj = 1, trace = [CreateBuffer, DeleteBuffer (JObj KBuffer 0)]\<rparr>)"
    by (simp add: ref_simps)
  show ?thesis using glDeleteBuffer_refines_delete [where host = H_ok and buf = "[]", OF a z c] a z c by (simp only: Let_def)
qed

text \<open>
  C7: when the host reports a falsy \<open>COMPILE_STATUS\<close>, \<open>glCompileShader\<close> throws the string \<open>Error compiling shader:\<close> followed by the host's info log; the handle tables are untouched (no cleanup: the shader handle stays valid).
\<close>

theorem glCompileShader_failure:
  assumes "host (CompileShader (js_index (glShaders s) shader)) (gl s) = (Inr r, h_comp)"
    and "host (GetShaderParameter (js_index (glShaders s) shader) COMPILE_STATUS) h_comp = (Inr status, h_stat)"
    and "\<not> js_truthy status"
    and "host (GetShaderInfoLog (js_index (glShaders s) shader)) h_stat = (Inr log, h_log)"
  shows "glCompileShader host shader s =
           (Inl (Thrown (js_str ''Error compiling shader:'' @ js_to_string log)), s\<lparr>gl := h_log\<rparr>)"
  using assms by (simp add: glCompileShader_app compile_error_def)

theorem glCompileShader_failure_witness:
  "let s = snd (run H_fail [([], OCreateShader 35633)] ref_env) in
   glCompileShader H_fail 0 s =
     (Inl (Thrown (js_str ''Error compiling shader:ERROR: 0:1: syntax error'')),
      s\<lparr>gl := \<lparr>next_obj = 1, trace = [CreateShader 35633, CompileShader (JObj KShader 0),
         GetShaderParameter (JObj KShader 0) COMPILE_STATUS, GetShaderInfoLog (JObj KShader 0)]\<rparr>\<rparr>) \<and>
   glShaders s = [JObj KShader 0]"
proof -
  let ?s = "snd (run H_fail [([], OCreateShader 35633)] ref_env)"
  have s: "?s = ref_env\<lparr>gl := \<lparr>next_obj = 1, trace = [CreateShader 35633]\<rparr>, glShaders := [JObj KShader 0]\<rparr>"
    by (simp add: ref_simps)
  show ?thesis
    using glCompileShader_failure [where host = H_fail and s = ?s and shader = 0 and r = JUndef
        and status = "JBool False" and log = "JStr (js_str ''ERROR: 0:1: syntax error'')"
        and h_comp = "\<lparr>next_obj = 1, trace = [CreateShader 35633, CompileShader (JObj KShader 0)]\<rparr>"
        and h_stat = "\<lparr>next_obj = 1, trace = [CreateShader 35633, CompileShader (JObj KShader 0),
                   GetShaderParameter (JObj KShader 0) COMPILE_STATUS]\<rparr>"
        and h_log = "\<lparr>next_obj = 1, trace = [CreateShader 35633, CompileShader (JObj KShader 0),
                   GetShaderParameter (JObj KShader 0) COMPILE_STATUS, GetShaderInfoLog (JObj KShader 0)]\<rparr>"]
    unfolding s by (simp add: ref_simps js_str_def)
qed

text \<open>
  C8: when the host reports a falsy \<open>LINK_STATUS\<close>, \<open>glLinkProgram\<close> throws the string \<open>Error linking program:\<close> followed by the program info log, with the tables untouched.
\<close>

theorem glLinkProgram_failure:
  assumes "host (LinkProgram (js_index (glPrograms s) program)) (gl s) = (Inr r, h_comp)"
    and "host (GetProgramParameter (js_index (glPrograms s) program) LINK_STATUS) h_comp = (Inr status, h_stat)"
    and "\<not> js_truthy status"
    and "host (GetProgramInfoLog (js_index (glPrograms s) program)) h_stat = (Inr log, h_log)"
  shows "glLinkProgram host program s =
           (Inl (Thrown (js_str ''Error linking program:'' @ js_to_string log)), s\<lparr>gl := h_log\<rparr>)"
  using assms by (simp add: glLinkProgram_app link_error_def)

theorem glLinkProgram_failure_witness:
  "let s = snd (run H_fail [([], OCreateProgram)] ref_env) in
   glLinkProgram H_fail 0 s =
     (Inl (Thrown (js_str ''Error linking program:ERROR: 0:1: syntax error'')),
      s\<lparr>gl := \<lparr>next_obj = 1, trace = [CreateProgram, LinkProgram (JObj KProgram 0),
         GetProgramParameter (JObj KProgram 0) LINK_STATUS, GetProgramInfoLog (JObj KProgram 0)]\<rparr>\<rparr>)"
proof -
  let ?s = "snd (run H_fail [([], OCreateProgram)] ref_env)"
  have s: "?s = ref_env\<lparr>gl := \<lparr>next_obj = 1, trace = [CreateProgram]\<rparr>, glPrograms := [JObj KProgram 0]\<rparr>"
    by (simp add: ref_simps)
  show ?thesis
    using glLinkProgram_failure [where host = H_fail and s = ?s and program = 0 and r = JUndef
        and status = "JBool False" and log = "JStr (js_str ''ERROR: 0:1: syntax error'')"
        and h_comp = "\<lparr>next_obj = 1, trace = [CreateProgram, LinkProgram (JObj KProgram 0)]\<rparr>"
        and h_stat = "\<lparr>next_obj = 1, trace = [CreateProgram, LinkProgram (JObj KProgram 0),
                   GetProgramParameter (JObj KProgram 0) LINK_STATUS]\<rparr>"
        and h_log = "\<lparr>next_obj = 1, trace = [CreateProgram, LinkProgram (JObj KProgram 0),
                   GetProgramParameter (JObj KProgram 0) LINK_STATUS, GetProgramInfoLog (JObj KProgram 0)]\<rparr>"]
    unfolding s by (simp add: ref_simps js_str_def)
qed

text \<open>
  C9: when the host reports a truthy \<open>COMPILE_STATUS\<close>, \<open>glCompileShader\<close> returns undefined after exactly the two host calls \<open>compileShader\<close> and \<open>getShaderParameter\<close>, and asks for no log.
\<close>

theorem glCompileShader_success:
  assumes "host (CompileShader (js_index (glShaders s) shader)) (gl s) = (Inr r, h_comp)"
    and "host (GetShaderParameter (js_index (glShaders s) shader) COMPILE_STATUS) h_comp = (Inr status, h_stat)"
    and "js_truthy status"
  shows "glCompileShader host shader s = (Inr JUndef, s\<lparr>gl := h_stat\<rparr>)"
  using assms by (simp add: glCompileShader_app)

theorem glCompileShader_success_witness:
  "let s = snd (run H_ok [([], OCreateShader 35633)] ref_env) in
   glCompileShader H_ok 0 s =
     (Inr JUndef, s\<lparr>gl := \<lparr>next_obj = 1, trace = [CreateShader 35633, CompileShader (JObj KShader 0),
         GetShaderParameter (JObj KShader 0) COMPILE_STATUS]\<rparr>\<rparr>)"
proof -
  let ?s = "snd (run H_ok [([], OCreateShader 35633)] ref_env)"
  have s: "?s = ref_env\<lparr>gl := \<lparr>next_obj = 1, trace = [CreateShader 35633]\<rparr>, glShaders := [JObj KShader 0]\<rparr>"
    by (simp add: ref_simps)
  show ?thesis
    using glCompileShader_success [where host = H_ok and s = ?s and shader = 0 and r = JUndef
        and status = "JBool True"
        and h_comp = "\<lparr>next_obj = 1, trace = [CreateShader 35633, CompileShader (JObj KShader 0)]\<rparr>"
        and h_stat = "\<lparr>next_obj = 1, trace = [CreateShader 35633, CompileShader (JObj KShader 0),
                   GetShaderParameter (JObj KShader 0) COMPILE_STATUS]\<rparr>"]
    unfolding s by (simp add: ref_simps)
qed

text \<open>
  C10: with a host that never throws, the only exceptions a call raises are \<open>RangeError\<close> from a call that builds a typed-array view and the compile or link message of \<open>glCompileShader\<close> and \<open>glLinkProgram\<close>; every other host error is left to the polled \<open>getError\<close>.
\<close>

theorem dispatch_exceptions:
  assumes "dispatch (total_host f) buf c s = (Inl e, s')"
  shows "(e = RangeError \<and> builds_view c) \<or>
         (\<exists>sh log. c = OCompileShader sh \<and> e = compile_error log) \<or>
         (\<exists>p log. c = OLinkProgram p \<and> e = link_error log)"
  using assms
  by (cases c) (auto simp: method_defs jsm_simps Float32Array_Inl readCharStr_Inl Uint8Array_Inl
      split: prod.splits sum.splits if_splits)

theorem dispatch_exceptions_witness:
  "dispatch (total_host (\<lambda>c g. (JBool False, g))) [] (OCompileShader 0) ref_env =
     (Inl (compile_error (JBool False)), ref_env) \<and>
   (\<exists>sh log. OCompileShader 0 = OCompileShader sh \<and> compile_error (JBool False) = compile_error log)"
proof -
  have d: "dispatch (total_host (\<lambda>c g. (JBool False, g))) [] (OCompileShader 0) ref_env =
     (Inl (compile_error (JBool False)), ref_env)"
    by (simp add: glCompileShader_app ref_env_def)
  have "(compile_error (JBool False) = RangeError \<and> builds_view (OCompileShader 0)) \<or>
        (\<exists>sh log. OCompileShader 0 = OCompileShader sh \<and> compile_error (JBool False) = compile_error log) \<or>
        (\<exists>p log. OCompileShader 0 = OLinkProgram p \<and> compile_error (JBool False) = link_error log)"
    using dispatch_exceptions [OF d] by simp
  with d show ?thesis by auto
qed

text \<open>
  C13: \<open>glUniformMatrix4fv(loc, n, transpose, ptr)\<close> reads exactly \<open>16 * n\<close> floats, the little-endian decodings of the \<open>64 * n\<close> bytes at \<open>ptr\<close>, and passes them to the host's \<open>uniformMatrix4fv\<close>.
\<close>

theorem glUniformMatrix4fv_reads_16n:
  assumes "Float32Array buf ptr (n * 16) = Inr fs"
  shows "length fs = 16 * nat n \<and> fs = map f32_of_le (chunks4 (take (64 * nat n) (drop (nat ptr) buf))) \<and>
         glUniformMatrix4fv host buf loc n tr ptr s =
           js_void (gl_invoke host (UniformMatrix4fv (js_index (glUniformLocations s) loc) tr fs)) s"
proof -
  have len: "length fs = 16 * nat n"
    using Float32Array_length [OF assms] by (simp add: nat_mult_distrib)
  from assms obtain bs where "typed_view 4 buf ptr (n * 16) = Inr bs" and fs: "fs = map f32_of_le (chunks4 bs)"
    by (auto simp: Float32Array_Inr_iff)
  then have "bs = take (64 * nat n) (drop (nat ptr) buf)"
    by (simp add: typed_view_Inr_iff nat_mult_distrib)
  with fs len assms show ?thesis by (simp add: glUniformMatrix4fv_def jsm_simps)
qed

theorem glUniformMatrix4fv_reads_16n_witness:
  "Float32Array (replicate 128 0) 0 (2 * 16) = Inr (replicate 32 0) \<and>
   length (replicate 32 (0::f32)) = 16 * nat 2 \<and>
   glUniformMatrix4fv H_ok (replicate 128 0) 0 2 0 0 ref_env =
     js_void (gl_invoke H_ok (UniformMatrix4fv (js_index (glUniformLocations ref_env) 0) 0 (replicate 32 0))) ref_env"
proof -
  have c: "chunks4 (replicate 128 (0::byte)) = replicate 32 (replicate 4 0)"
    using chunks4_replicate [of 32 "0::byte"] by simp
  then have f: "Float32Array (replicate 128 0) 0 (2 * 16) = Inr (replicate 32 0)"
    by (simp add: Float32Array_def typed_view_def f32_of_le_def map_replicate_const numeral_eq_Suc)
  show ?thesis using glUniformMatrix4fv_reads_16n [OF f, where host = H_ok and loc = 0 and tr = 0 and s = ref_env] f
    by (simp add: c)
qed

text \<open>
  C14: \<open>glTexImage2D\<close> with a data length that is not positive passes \<open>null\<close> as the pixel data, whatever the pointer, and builds no view (so it cannot throw \<open>RangeError\<close>).
\<close>

theorem glTexImage2D_null_data:
  assumes "data_len \<le> 0"
  shows "glTexImage2D host buf t l i w h b f ty ptr data_len =
           js_void (gl_invoke host (TexImage2D t l i w h b f ty None))"
  using assms by (simp add: glTexImage2D_def)

theorem glTexImage2D_null_data_witness:
  "(0::int) \<le> 0 \<and>
   glTexImage2D H_ok [] 3553 0 6408 1 1 0 6408 5121 (-1) 0 ref_env =
     (Inr JUndef, ref_env\<lparr>gl := \<lparr>next_obj = 0, trace = [TexImage2D 3553 0 6408 1 1 0 6408 5121 None]\<rparr>\<rparr>)"
  using glTexImage2D_null_data [where data_len = 0 and host = H_ok and buf = "[]" and t = 3553 and l = 0
      and i = 6408 and w = 1 and h = 1 and b = 0 and f = 6408 and ty = 5121 and ptr = "-1"]
  by (simp add: ref_simps)

text \<open>
  C15: a call depends on guest memory only through the length of the buffer and the bytes of the range it reads: two buffers of one length that agree on that range give the same call.
\<close>

theorem dispatch_memory_frame:
  "length buf' = length buf \<Longrightarrow> \<forall>k. mem_read c k \<longrightarrow> buf' ! k = buf ! k \<Longrightarrow>
   dispatch host buf' c = dispatch host buf c"
  by (cases c) (simp_all only: dispatch.simps mem_read.simps simp_thms all_simps,
    (rule glBufferData_frame glUniformMatrix4fv_frame glShaderSource_frame glGetAttribLocation_frame
          glGetUniformLocation_frame glTexImage2D_frame; assumption)+)

theorem dispatch_memory_frame_witness:
  "length [1, 2, 3, 4 :: byte] = length [1, 2, 3, 9 :: byte] \<and>
   [1, 2, 3, 9 :: byte] ! 0 = [1, 2, 3, 4] ! 0 \<and> [1, 2, 3, 9 :: byte] ! 2 = [1, 2, 3, 4] ! 2 \<and>
   dispatch H_ok [1, 2, 3, 9] (OShaderSource 0 0 3) = dispatch H_ok [1, 2, 3, 4] (OShaderSource 0 0 3)"
proof -
  have a: "length [1, 2, 3, 4 :: byte] = length [1, 2, 3, 9 :: byte]" by simp
  have b: "\<forall>k. mem_read (OShaderSource 0 0 3) k \<longrightarrow> [1, 2, 3, 9 :: byte] ! k = [1, 2, 3, 4] ! k"
    by (auto simp: js_of_i32_def less_Suc_eq numeral_eq_Suc)
  show ?thesis using dispatch_memory_frame [OF a[symmetric] b, where host = H_ok] a b by simp
qed

text \<open>
  C16: a call that did not fail with \<open>RangeError\<close> over a buffer behaves the same over any grown buffer: since every call reacquires the buffer, growing the guest memory never changes a call that worked.
\<close>

theorem dispatch_memory_growth:
  assumes "dispatch host buf c s = (r, s')" and "r \<noteq> Inl RangeError"
  shows "dispatch host (buf @ ext) c s = (r, s')"
proof (cases c)
  case (OBufferData t count ptr u)
  with assms show ?thesis
    by (simp add: glBufferData_def) (erule js_lift_replace [where err = RangeError], simp_all add: Float32Array_Inl Float32Array_grow)
next
  case (OUniformMatrix4fv loc n tr ptr)
  with assms show ?thesis
    by (simp add: glUniformMatrix4fv_def) (erule js_lift_replace [where err = RangeError], simp_all add: Float32Array_Inl Float32Array_grow)
next
  case (OShaderSource sh ptr len)
  with assms show ?thesis
    by (simp add: glShaderSource_def) (erule js_lift_replace [where err = RangeError], simp_all add: readCharStr_Inl readCharStr_grow)
next
  case (OGetAttribLocation p ptr len)
  with assms show ?thesis
    by (simp add: glGetAttribLocation_def) (erule js_lift_replace [where err = RangeError], simp_all add: readCharStr_Inl readCharStr_grow)
next
  case (OGetUniformLocation p ptr len)
  with assms show ?thesis
    by (simp add: glGetUniformLocation_def) (erule js_lift_replace [where err = RangeError], simp_all add: readCharStr_Inl readCharStr_grow)
next
  case (OTexImage2D a b c d e f g h ptr len)
  show ?thesis
  proof (cases "0 < js_of_i32 len")
    case True
    then show ?thesis using assms OTexImage2D
      by (simp add: glTexImage2D_def) (erule js_lift_replace [where err = RangeError]; simp add: glTexImage2D_view_cases)
  next
    case False
    then show ?thesis using assms OTexImage2D by (simp add: glTexImage2D_def)
  qed
qed (insert assms, simp_all)

theorem dispatch_memory_growth_witness:
  "let d = dispatch H_ok [0, 0, 128, 63] (OBufferData 34962 1 0 35044) ref_env in
   d = (Inr JUndef, snd d) \<and> Inr JUndef \<noteq> (Inl RangeError :: exn + jsval) \<and>
   dispatch H_ok ([0, 0, 128, 63] @ replicate 4 0) (OBufferData 34962 1 0 35044) ref_env = (Inr JUndef, snd d)"
proof -
  have d: "dispatch H_ok [0, 0, 128, 63] (OBufferData 34962 1 0 35044) ref_env =
    (Inr JUndef, ref_env\<lparr>gl := \<lparr>next_obj = 0, trace = [BufferData 34962 [0x3F800000] 35044]\<rparr>\<rparr>)"
    by (simp add: ref_simps Float32Array_def typed_view_def f32_of_le_def)
  show ?thesis using dispatch_memory_growth [OF d, where ext = "replicate 4 0"] d by simp
qed

text \<open>
  C17: \<open>glBufferData(type, count, ptr, usage)\<close> passes to the host's \<open>bufferData\<close> exactly
  the \<open>count\<close> floats the guest stored at \<open>ptr\<close>, with \<open>type\<close> and \<open>usage\<close> in their places.
\<close>

theorem glBufferData_passes_floats:
  assumes "0 \<le> js_of_i32 ptr" "js_of_i32 ptr mod 4 = 0"
    and "js_of_i32 ptr + 4 * int (length ws) \<le> int (length buf)"
    and "take (4 * length ws) (drop (nat (js_of_i32 ptr)) buf) = concat (map le_of_f32 ws)"
    and "js_of_i32 count = int (length ws)"
  shows "dispatch host buf (OBufferData t count ptr u) s =
           js_void (gl_invoke host (BufferData (js_of_i32 t) ws (js_of_i32 u))) s"
  using Float32Array_read_back [OF assms(1-4)] assms(5) by (simp add: glBufferData_def jsm_simps)

theorem glBufferData_passes_floats_witness:
  "0 \<le> js_of_i32 0 \<and> js_of_i32 0 mod 4 = 0 \<and>
   js_of_i32 0 + 4 * int (length [0x3F800000 :: f32]) \<le> int (length [0, 0, 128, 63 :: byte]) \<and>
   take (4 * length [0x3F800000 :: f32]) (drop (nat (js_of_i32 0)) [0, 0, 128, 63]) = concat (map le_of_f32 [0x3F800000]) \<and>
   js_of_i32 1 = int (length [0x3F800000 :: f32]) \<and>
   dispatch H_ok [0, 0, 128, 63] (OBufferData 34962 1 0 35044) ref_env =
     js_void (gl_invoke H_ok (BufferData (js_of_i32 34962) [0x3F800000] (js_of_i32 35044))) ref_env"
proof -
  have e: "le_of_f32 0x3F800000 = [0, 0, 128, 63]"
    by (simp add: le_of_f32_def le_bytes_numeral)
  have a: "0 \<le> js_of_i32 0" "js_of_i32 0 mod 4 = 0" "js_of_i32 1 = int (length [0x3F800000 :: f32])"
    by (simp_all add: js_of_i32_def)
  have b: "js_of_i32 0 + 4 * int (length [0x3F800000 :: f32]) \<le> int (length [0, 0, 128, 63 :: byte])"
    by (simp add: js_of_i32_def)
  have c: "take (4 * length [0x3F800000 :: f32]) (drop (nat (js_of_i32 0)) [0, 0, 128, 63]) =
           concat (map le_of_f32 [0x3F800000])"
    by (simp add: e js_of_i32_def)
  show ?thesis using glBufferData_passes_floats [OF a(1,2) b c a(3), where host = H_ok and t = 34962
      and u = 35044 and s = ref_env] a b c by simp
qed

text \<open>
  C18: \<open>glShaderSource_(shader, ptr, len)\<close> over a range inside the buffer passes to the
  host's \<open>shaderSource\<close> the object of the shader handle and the string with one code unit
  per byte of the range.
\<close>

theorem glShaderSource_passes_source:
  assumes "0 \<le> js_of_i32 ptr" "0 \<le> js_of_i32 len" "js_of_i32 ptr + js_of_i32 len \<le> int (length buf)"
  shows "dispatch host buf (OShaderSource sh ptr len) s =
           js_void (gl_invoke host (ShaderSource (js_index (glShaders s) (js_of_i32 sh))
              (map ucast (take (nat (js_of_i32 len)) (drop (nat (js_of_i32 ptr)) buf))))) s"
  using readCharStr_ok [OF assms] by (simp add: glShaderSource_def jsm_simps)

theorem glShaderSource_passes_source_witness:
  "0 \<le> js_of_i32 0 \<and> 0 \<le> js_of_i32 2 \<and> js_of_i32 0 + js_of_i32 2 \<le> int (length [72, 105 :: byte]) \<and>
   dispatch H_ok [72, 105] (OShaderSource 0 0 2) ref_env =
     js_void (gl_invoke H_ok (ShaderSource (js_index (glShaders ref_env) (js_of_i32 0)) (js_str ''Hi''))) ref_env"
proof -
  have a: "0 \<le> js_of_i32 0" "0 \<le> js_of_i32 2" "js_of_i32 0 + js_of_i32 2 \<le> int (length [72, 105 :: byte])"
    by (simp_all add: js_of_i32_def)
  show ?thesis using glShaderSource_passes_source [OF a, where host = H_ok and sh = 0 and s = ref_env] a
    by (simp add: js_of_i32_def js_str_def)
qed

text \<open>
  C19: \<open>glBufferData\<close> with a pointer that is not a multiple of 4 throws \<open>RangeError\<close> (the alignment rule of \<open>Float32Array\<close>) and makes no host call.
\<close>

theorem glBufferData_misaligned:
  assumes "js_of_i32 ptr mod 4 \<noteq> 0"
  shows "dispatch host buf (OBufferData t count ptr u) s = (Inl RangeError, s)"
  using assms by (simp add: glBufferData_def jsm_simps Float32Array_def typed_view_def)

theorem glBufferData_misaligned_witness:
  "js_of_i32 2 mod 4 \<noteq> 0 \<and>
   dispatch H_ok (replicate 8 0) (OBufferData 34962 1 2 35044) ref_env = (Inl RangeError, ref_env)"
  using glBufferData_misaligned [where ptr = 2 and host = H_ok and buf = "replicate 8 0" and t = 34962
      and count = 1 and u = 35044 and s = ref_env]
  by (simp add: js_of_i32_def)

text \<open>
  C20: a pointer whose unsigned 32-bit value is \<open>2^31\<close> or more arrives in JavaScript as a negative Number, and every memory-reading call with it throws \<open>RangeError\<close> without a host call: \<open>glBufferData\<close>, \<open>glShaderSource_\<close>, \<open>glGetAttribLocation_\<close>, \<open>glGetUniformLocation_\<close>, \<open>glUniformMatrix4fv\<close>, and \<open>glTexImage2D\<close> whenever its data length is positive (it builds no view otherwise).
\<close>

theorem memory_views_reject_high_pointers:
  assumes "2 ^ 31 \<le> unat ptr"
  shows "dispatch host buf (OBufferData t count ptr u) s = (Inl RangeError, s) \<and>
         dispatch host buf (OShaderSource sh ptr len) s = (Inl RangeError, s) \<and>
         dispatch host buf (OGetAttribLocation p ptr len) s = (Inl RangeError, s) \<and>
         dispatch host buf (OGetUniformLocation p ptr len) s = (Inl RangeError, s) \<and>
         dispatch host buf (OUniformMatrix4fv loc n tr ptr) s = (Inl RangeError, s) \<and>
         (0 < js_of_i32 len \<longrightarrow>
            dispatch host buf (OTexImage2D tg lv fi wd ht bd fm ty ptr len) s = (Inl RangeError, s))"
proof -
  have neg: "js_of_i32 ptr < 0" using assms by (rule i32_high_negative)
  then have "Float32Array buf (js_of_i32 ptr) x = Inl RangeError" for x
    by (simp add: Float32Array_def typed_view_def)
  moreover have "readCharStr buf (js_of_i32 ptr) x = Inl RangeError" for x
    using neg by (simp add: readCharStr_range_error)
  moreover have "Uint8Array buf (js_of_i32 ptr) x = Inl RangeError" for x
    using neg by (simp add: Uint8Array_def typed_view_def)
  ultimately show ?thesis
    by (simp add: glBufferData_def glShaderSource_def glGetAttribLocation_def glGetUniformLocation_def
        glUniformMatrix4fv_def glTexImage2D_def jsm_simps)
qed

theorem memory_views_reject_high_pointers_witness:
  "2 ^ 31 \<le> unat (2147483648 :: i32) \<and>
   dispatch H_ok [] (OShaderSource 0 2147483648 0) ref_env = (Inl RangeError, ref_env) \<and>
   0 < js_of_i32 4 \<and>
   dispatch H_ok [] (OTexImage2D 3553 0 6408 1 1 0 6408 5121 2147483648 4) ref_env = (Inl RangeError, ref_env)"
proof -
  have a: "2 ^ 31 \<le> unat (2147483648 :: i32)" by simp
  have z: "0 < js_of_i32 4" by (simp add: js_of_i32_def)
  show ?thesis
    using memory_views_reject_high_pointers [OF a, where host = H_ok and buf = "[]" and s = ref_env
        and sh = 0 and len = 0]
      memory_views_reject_high_pointers [OF a, where host = H_ok and buf = "[]" and s = ref_env
        and len = 4 and tg = 3553 and lv = 0 and fi = 6408 and wd = 1 and ht = 1 and bd = 0 and fm = 6408
        and ty = 5121]
      a z
    by simp
qed

text \<open>
  C21: the contract rejects a second deletion of a handle; \<open>glDeleteBuffer\<close> accepts it
  silently: it passes undefined to the host's \<open>deleteBuffer\<close>, returns undefined and leaves
  the buffer table as it was.
\<close>

theorem glDeleteBuffer_twice_accepted:
  assumes "dispatch host buf (ODeleteBuffer h) s = (Inr r, s_del)" and "0 \<le> js_of_i32 h"
    and "host (DeleteBuffer JUndef) (gl s_del) = (Inr r2, g2)"
  shows "ht_delete (ht_abs (glBuffers s_del)) (nat (js_of_i32 h)) = Inl InvalidHandle \<and>
         dispatch host buf' (ODeleteBuffer h) s_del = (Inr JUndef, s_del\<lparr>gl := g2\<rparr>)"
proof -
  have "glDeleteBuffer host (js_of_i32 h) s = (Inr r, s_del)" using assms(1) by simp
  then have del: "glBuffers s_del = js_set_undefined (glBuffers s) (js_of_i32 h)"
    by (rule glDeleteBuffer_Inr [THEN conjunct1])
  then have dead: "js_index (glBuffers s_del) (js_of_i32 h) = JUndef" by simp
  have "nat (js_of_i32 h) < length (glBuffers s_del)"
    using del assms(2) by (simp add: length_js_set_undefined)
  then have same: "js_set_undefined (glBuffers s_del) (js_of_i32 h) = glBuffers s_del"
    using dead assms(2) by (rule js_set_undefined_dead [rotated 2])
  have "ht_delete (ht_abs (glBuffers s_del)) (nat (js_of_i32 h)) = Inl InvalidHandle"
    using dead assms(2) by (simp add: ht_delete_abs_dead)
  moreover have "dispatch host buf' (ODeleteBuffer h) s_del = (Inr JUndef, s_del\<lparr>gl := g2\<rparr>)"
    using dead same assms(3) by (simp add: glDeleteBuffer_def jsm_simps)
  ultimately show ?thesis by simp
qed

theorem glDeleteBuffer_twice_accepted_witness:
  "let s = snd (dispatch H_ok [] OCreateBuffer ref_env); d = dispatch H_ok [] (ODeleteBuffer 0) s in
   d = (Inr JUndef, snd d) \<and> 0 \<le> js_of_i32 0 \<and>
   H_ok (DeleteBuffer JUndef) (gl (snd d)) =
     (Inr JUndef, \<lparr>next_obj = 1, trace = [CreateBuffer, DeleteBuffer (JObj KBuffer 0), DeleteBuffer JUndef]\<rparr>) \<and>
   ht_delete (ht_abs (glBuffers (snd d))) (nat (js_of_i32 0)) = Inl InvalidHandle \<and>
   dispatch H_ok [] (ODeleteBuffer 0) (snd d) =
     (Inr JUndef, (snd d)\<lparr>gl := \<lparr>next_obj = 1, trace = [CreateBuffer, DeleteBuffer (JObj KBuffer 0), DeleteBuffer JUndef]\<rparr>\<rparr>)"
proof -
  let ?s = "snd (dispatch H_ok [] OCreateBuffer ref_env)"
  let ?d = "dispatch H_ok [] (ODeleteBuffer 0) ?s"
  have d: "?d = (Inr JUndef, snd ?d)" by (simp add: ref_simps)
  have z: "0 \<le> js_of_i32 0" by (simp add: js_of_i32_def)
  have c: "H_ok (DeleteBuffer JUndef) (gl (snd ?d)) =
     (Inr JUndef, \<lparr>next_obj = 1, trace = [CreateBuffer, DeleteBuffer (JObj KBuffer 0), DeleteBuffer JUndef]\<rparr>)"
    by (simp add: ref_simps)
  show ?thesis using glDeleteBuffer_twice_accepted [OF d z c, where buf' = "[]"] d z c by (simp only: Let_def)
qed

text \<open>
  C22: \<open>glTexImage2D\<close> with a positive data length and a range inside the buffer passes to
  the host's \<open>texImage2D\<close> its eight parameters in order and, as pixel data, a view of exactly
  the \<open>data_len\<close> bytes at \<open>data_ptr\<close>.
\<close>

theorem glTexImage2D_passes_bytes:
  assumes "0 < js_of_i32 len" "0 \<le> js_of_i32 ptr" "js_of_i32 ptr + js_of_i32 len \<le> int (length buf)"
  shows "dispatch host buf (OTexImage2D tg lv fi wd ht bd fm ty ptr len) s =
           js_void (gl_invoke host (TexImage2D (js_of_i32 tg) (js_of_i32 lv) (js_of_i32 fi) (js_of_i32 wd)
              (js_of_i32 ht) (js_of_i32 bd) (js_of_i32 fm) (js_of_i32 ty)
              (Some (take (nat (js_of_i32 len)) (drop (nat (js_of_i32 ptr)) buf))))) s"
  using assms by (simp add: glTexImage2D_def jsm_simps Uint8Array_def typed_view_def)

theorem glTexImage2D_passes_bytes_witness:
  "0 < js_of_i32 4 \<and> 0 \<le> js_of_i32 0 \<and> js_of_i32 0 + js_of_i32 4 \<le> int (length [1, 2, 3, 4 :: byte]) \<and>
   dispatch H_ok [1, 2, 3, 4] (OTexImage2D 3553 0 6408 1 1 0 6408 5121 0 4) ref_env =
     js_void (gl_invoke H_ok (TexImage2D 3553 0 6408 1 1 0 6408 5121 (Some [1, 2, 3, 4]))) ref_env"
proof -
  have a: "0 < js_of_i32 4" "0 \<le> js_of_i32 0" "js_of_i32 0 + js_of_i32 4 \<le> int (length [1, 2, 3, 4 :: byte])"
    by (simp_all add: js_of_i32_def)
  show ?thesis using glTexImage2D_passes_bytes [OF a, where host = H_ok and tg = 3553 and lv = 0 and fi = 6408
      and wd = 1 and ht = 1 and bd = 0 and fm = 6408 and ty = 5121 and s = ref_env] a
    by (simp add: js_of_i32_def)
qed

text \<open>
  C23: deleting the never-issued buffer handle 5 in an empty table extends the array, so that the next \<open>createBuffer\<close> returns 6 instead of 0: handles are not dense.
\<close>

theorem delete_unissued_skips_handles:
  assumes "glBuffers s = []"
    and "\<forall>g. \<exists>v g'. host (DeleteBuffer JUndef) g = (Inr v, g')"
    and "\<forall>g. \<exists>v g'. host CreateBuffer g = (Inr v, g')"
  shows "fst (run host [(buf, ODeleteBuffer 5), (buf, OCreateBuffer)] s) = [Inr JUndef, Inr (JNum 6)]"
proof -
  obtain v g' where d: "host (DeleteBuffer JUndef) (gl s) = (Inr v, g')" using assms(2) by blast
  obtain w g'' where c: "host CreateBuffer g' = (Inr w, g'')" using assms(3) by blast
  have "js_of_i32 5 = 5" by (simp add: js_of_i32_def)
  with assms(1) d c show ?thesis
    by (simp add: glDeleteBuffer_def glCreateBuffer_def jsm_simps js_index_def js_set_undefined_def js_push_def)
qed

theorem delete_unissued_skips_handles_witness:
  "glBuffers ref_env = [] \<and> (\<forall>g. \<exists>v g'. H_ok (DeleteBuffer JUndef) g = (Inr v, g')) \<and>
   (\<forall>g. \<exists>v g'. H_ok CreateBuffer g = (Inr v, g')) \<and>
   fst (run H_ok [([], ODeleteBuffer 5), ([], OCreateBuffer)] ref_env) = [Inr JUndef, Inr (JNum 6)]"
proof -
  have a: "glBuffers ref_env = []" by (simp add: ref_env_def)
  have b: "\<forall>g. \<exists>v g'. H_ok (DeleteBuffer JUndef) g = (Inr v, g')" by (simp add: ref_host_def nullable_arg_def)
  have c: "\<forall>g. \<exists>v g'. H_ok CreateBuffer g = (Inr v, g')" by (simp add: ref_host_def fresh_def)
  show ?thesis using delete_unissued_skips_handles [where host = H_ok and s = ref_env and buf = "[]", OF a b c] a b c
    by simp
qed

text \<open>
  C24: after a buffer handle is deleted, \<open>glBindBuffer\<close> with it passes \<open>undefined\<close> to the host's \<open>bindBuffer\<close> (which unbinds) instead of reporting an invalid handle.
\<close>

theorem stale_buffer_handle_binds_undefined:
  assumes "dispatch host buf (ODeleteBuffer h) s = (Inr r, s_del)" and "0 \<le> js_of_i32 h"
  shows "dispatch host buf' (OBindBuffer t h) s_del =
           js_void (gl_invoke host (BindBuffer (js_of_i32 t) JUndef)) s_del"
proof -
  have "glDeleteBuffer host (js_of_i32 h) s = (Inr r, s_del)" using assms(1) by simp
  then have "glBuffers s_del = js_set_undefined (glBuffers s) (js_of_i32 h)"
    by (simp add: glDeleteBuffer_Inr)
  then have "js_index (glBuffers s_del) (js_of_i32 h) = JUndef" by simp
  then show ?thesis by (simp add: glBindBuffer_def jsm_simps)
qed

theorem stale_buffer_handle_binds_undefined_witness:
  "let s = snd (run H_ok [([], OCreateBuffer)] ref_env); d = dispatch H_ok [] (ODeleteBuffer 0) s in
   d = (Inr JUndef, snd d) \<and> 0 \<le> js_of_i32 0 \<and>
   dispatch H_ok [] (OBindBuffer 34962 0) (snd d) = js_void (gl_invoke H_ok (BindBuffer 34962 JUndef)) (snd d)"
  using stale_buffer_handle_binds_undefined [where host = H_ok and buf = "[]" and h = 0 and r = JUndef
      and s = "snd (run H_ok [([], OCreateBuffer)] ref_env)"
      and s_del = "snd (dispatch H_ok [] (ODeleteBuffer 0) (snd (run H_ok [([], OCreateBuffer)] ref_env)))"
      and buf' = "[]" and t = 34962]
  by (simp add: ref_simps)

text \<open>
  C25: \<open>glGetUniformLocation\<close> decodes the name, asks the host for the location and appends it to the uniform-location table, returning the new handle (the old length): every call allocates a new handle.
\<close>

theorem glGetUniformLocation_allocates:
  assumes "readCharStr buf p l = Inr name"
    and "host (GetUniformLocation (js_index (glPrograms s) prog) name) (gl s) = (Inr loc, g')"
  shows "glGetUniformLocation host buf prog p l s =
           (Inr (JNum (int (length (glUniformLocations s)))),
            s\<lparr>gl := g', glUniformLocations := glUniformLocations s @ [loc]\<rparr>)"
  using assms by (simp add: glGetUniformLocation_def jsm_simps js_push_def)

theorem glGetUniformLocation_allocates_witness:
  "let s = snd (run H_ok [([], OCreateProgram)] ref_env) in
   readCharStr [72, 105] 0 2 = Inr [72, 105] \<and>
   H_ok (GetUniformLocation (js_index (glPrograms s) 0) [72, 105]) (gl s) =
     (Inr (JObj KUniformLocation 1), \<lparr>next_obj = 2, trace = [CreateProgram, GetUniformLocation (JObj KProgram 0) [72, 105]]\<rparr>) \<and>
   glGetUniformLocation H_ok [72, 105] 0 0 2 s =
     (Inr (JNum 0), s\<lparr>gl := \<lparr>next_obj = 2, trace = [CreateProgram, GetUniformLocation (JObj KProgram 0) [72, 105]]\<rparr>,
                      glUniformLocations := [JObj KUniformLocation 1]\<rparr>)"
proof -
  have r: "readCharStr [72, 105] 0 2 = Inr [72, 105]" by (simp add: readCharStr_ok)
  show ?thesis
    using glGetUniformLocation_allocates [OF r, where host = H_ok and prog = 0
        and s = "snd (run H_ok [([], OCreateProgram)] ref_env)"] r
    by (simp add: ref_simps)
qed

text \<open>
  C26: \<open>getWebGLEnv\<close> asks the canvas for a \<open>'webgl'\<close> context with \<open>antialias: false\<close> and
  \<open>preserveDrawingBuffer: true\<close>; it throws \<open>Error('The browser does not support WebGL')\<close>
  when the canvas gives \<open>null\<close>, and otherwise starts with that context and six empty handle
  tables.
\<close>

theorem getWebGLEnv_spec:
  "(getContext (js_str ''webgl'') webgl_attributes = None \<longrightarrow>
      getWebGLEnv getContext = Inl (Error (js_str ''The browser does not support WebGL''))) \<and>
   (getWebGLEnv getContext = Inr s \<longrightarrow>
      getContext (js_str ''webgl'') \<lparr>antialias = False, preserveDrawingBuffer = True\<rparr> = Some (gl s) \<and>
      (\<forall>K. table K s = []))"
proof -
  have "getWebGLEnv getContext = Inr s \<Longrightarrow> table K s = []" for K
    by (cases K) (auto simp: getWebGLEnv_def split: option.splits)
  then show ?thesis by (auto simp: getWebGLEnv_def webgl_attributes_def split: option.splits)
qed

theorem getWebGLEnv_spec_witness:
  "getWebGLEnv (\<lambda>_ _. None :: webgl option) = Inl (Error (js_str ''The browser does not support WebGL'')) \<and>
   getWebGLEnv ref_canvas = Inr ref_env \<and>
   ref_canvas (js_str ''webgl'') \<lparr>antialias = False, preserveDrawingBuffer = True\<rparr> = Some (gl ref_env) \<and>
   (\<forall>K. table K ref_env = [])"
  using getWebGLEnv_spec [of "\<lambda>_ _. None :: webgl option" ref_env] getWebGLEnv_spec [of ref_canvas ref_env]
    getWebGLEnv_ref
  by (auto simp: webgl_attributes_def)

text \<open>
  C27: \<open>glGetAttribLocation_\<close> decodes the name, asks the host for the attribute location
  of the program of the handle, and returns the host's answer unchanged, with no table
  touched (unlike \<open>glGetUniformLocation_\<close>, it allocates nothing).
\<close>

theorem glGetAttribLocation_returns_host_value:
  assumes "readCharStr buf p l = Inr name"
    and "host (GetAttribLocation (js_index (glPrograms s) prog) name) (gl s) = (Inr loc, g')"
  shows "glGetAttribLocation host buf prog p l s = (Inr loc, s\<lparr>gl := g'\<rparr>)"
  using assms by (simp add: glGetAttribLocation_def jsm_simps)

theorem glGetAttribLocation_returns_host_value_witness:
  "let s = snd (run H_ok [([], OCreateProgram)] ref_env) in
   readCharStr [72, 105] 0 2 = Inr [72, 105] \<and>
   H_ok (GetAttribLocation (js_index (glPrograms s) 0) [72, 105]) (gl s) =
     (Inr (JNum 0), \<lparr>next_obj = 1, trace = [CreateProgram, GetAttribLocation (JObj KProgram 0) [72, 105]]\<rparr>) \<and>
   glGetAttribLocation H_ok [72, 105] 0 0 2 s =
     (Inr (JNum 0), s\<lparr>gl := \<lparr>next_obj = 1, trace = [CreateProgram, GetAttribLocation (JObj KProgram 0) [72, 105]]\<rparr>\<rparr>)"
proof -
  have r: "readCharStr [72, 105] 0 2 = Inr [72, 105]" by (simp add: readCharStr_ok)
  show ?thesis
    using glGetAttribLocation_returns_host_value [OF r, where host = H_ok and prog = 0
        and s = "snd (run H_ok [([], OCreateProgram)] ref_env)"] r
    by (simp add: ref_simps)
qed

text \<open>
  C28: over the reference context, in every state the guest's calls can reach, a handle of
  kind \<open>K\<close> resolves to undefined or to an object of interface \<open>K\<close> that the context has
  created: the bridge never files an object in the table of another kind.
\<close>

theorem tables_hold_own_kind:
  assumes "reachable (ref_host ok log) s"
  shows "js_index (table K s) h = JUndef \<or>
         (\<exists>n. js_index (table K s) h = JObj K n \<and> n < next_obj (gl s))"
proof -
  have "ref_inv s" using assms by (rule ref_inv_reachable)
  then have "\<forall>v \<in> set (table K s). issued K (gl s) v" by (simp add: ref_inv_iff)
  moreover have "js_index (table K s) h = JUndef \<or> js_index (table K s) h \<in> set (table K s)"
    by (simp add: js_index_def)
  moreover have "issued K (gl s) JUndef" by (simp add: issued_def)
  ultimately have "issued K (gl s) (js_index (table K s) h)" by metis
  then show ?thesis by (cases "js_index (table K s) h") (simp_all add: issued_def)
qed

theorem tables_hold_own_kind_witness:
  "let s = snd (dispatch H_ok [] OCreateBuffer ref_env) in
   reachable H_ok s \<and> js_index (table KBuffer s) 0 = JObj KBuffer 0 \<and>
   (js_index (table KBuffer s) 0 = JUndef \<or>
    (\<exists>n. js_index (table KBuffer s) 0 = JObj KBuffer n \<and> n < next_obj (gl s)))"
proof -
  have r0: "reachable H_ok ref_env" by (rule reachable.init [OF getWebGLEnv_ref])
  have r: "reachable H_ok (snd (dispatch H_ok [] OCreateBuffer ref_env))"
    by (rule reachable.step [OF r0 surjective_pairing])
  show ?thesis using tables_hold_own_kind [OF r, of KBuffer 0] r by (simp add: ref_simps)
qed

text \<open>
  C29: every call leaves unchanged every handle table other than the one it writes (the
  table of its \<open>create\<close>, \<open>delete\<close> or \<open>getUniformLocation\<close>), with any host, any memory and
  on any outcome: handles are scoped per kind.
\<close>

theorem dispatch_writes_only_its_table:
  assumes "dispatch host buf c s = (r, s')" and "writes c \<noteq> Some K"
  shows "table K s' = table K s"
  using presD [OF pres_dispatch_other [OF assms(2)] assms(1)] by (simp add: table_same_def)

theorem dispatch_writes_only_its_table_witness:
  "dispatch H_ok [] OCreateBuffer ref_env =
     (fst (dispatch H_ok [] OCreateBuffer ref_env), snd (dispatch H_ok [] OCreateBuffer ref_env)) \<and>
   writes OCreateBuffer \<noteq> Some KTexture \<and>
   table KBuffer (snd (dispatch H_ok [] OCreateBuffer ref_env)) = [JObj KBuffer 0] \<and>
   table KTexture (snd (dispatch H_ok [] OCreateBuffer ref_env)) = table KTexture ref_env"
  using dispatch_writes_only_its_table [where host = H_ok and buf = "[]" and c = OCreateBuffer
      and s = ref_env and K = KTexture, OF surjective_pairing]
  by (simp add: ref_simps)

text \<open>
  C30: the value a call returns has the type its method promises: \<open>undefined\<close> for the
  methods without \<open>return\<close>, and for the methods that return a handle the index of the last
  slot of the table they appended to (\<open>t.length - 1\<close>, a non-negative Number).
\<close>

theorem dispatch_result_type:
  assumes "dispatch host buf c s = (Inr v, s')"
  shows "result_ok (result_of c) s' v"
  using assms
  by (cases c) (auto simp: method_defs jsm_simps js_push_def split: prod.splits sum.splits if_splits)

theorem dispatch_result_type_witness:
  "dispatch H_ok [] (OCreateShader 35633) ref_env =
     (Inr (JNum 0), snd (dispatch H_ok [] (OCreateShader 35633) ref_env)) \<and>
   result_ok (result_of (OCreateShader 35633)) (snd (dispatch H_ok [] (OCreateShader 35633) ref_env)) (JNum 0)"
proof -
  have d: "dispatch H_ok [] (OCreateShader 35633) ref_env =
     (Inr (JNum 0), snd (dispatch H_ok [] (OCreateShader 35633) ref_env))"
    by (simp add: ref_simps)
  show ?thesis using dispatch_result_type [OF d] d by simp
qed

text \<open>
  C31: when the host reports a truthy \<open>LINK_STATUS\<close>, \<open>glLinkProgram\<close> returns undefined after
  exactly the two host calls \<open>linkProgram\<close> and \<open>getProgramParameter\<close>, and asks for no log.
\<close>

theorem glLinkProgram_success:
  assumes "host (LinkProgram (js_index (glPrograms s) program)) (gl s) = (Inr r, h_link)"
    and "host (GetProgramParameter (js_index (glPrograms s) program) LINK_STATUS) h_link = (Inr status, h_stat)"
    and "js_truthy status"
  shows "glLinkProgram host program s = (Inr JUndef, s\<lparr>gl := h_stat\<rparr>)"
  using assms by (simp add: glLinkProgram_app)

theorem glLinkProgram_success_witness:
  "let s = snd (run H_ok [([], OCreateProgram)] ref_env) in
   glLinkProgram H_ok 0 s =
     (Inr JUndef, s\<lparr>gl := \<lparr>next_obj = 1, trace = [CreateProgram, LinkProgram (JObj KProgram 0),
         GetProgramParameter (JObj KProgram 0) LINK_STATUS]\<rparr>\<rparr>)"
proof -
  let ?s = "snd (run H_ok [([], OCreateProgram)] ref_env)"
  have s: "?s = ref_env\<lparr>gl := \<lparr>next_obj = 1, trace = [CreateProgram]\<rparr>, glPrograms := [JObj KProgram 0]\<rparr>"
    by (simp add: ref_simps)
  show ?thesis
    using glLinkProgram_success [where host = H_ok and s = ?s and program = 0 and r = JUndef
        and status = "JBool True"
        and h_link = "\<lparr>next_obj = 1, trace = [CreateProgram, LinkProgram (JObj KProgram 0)]\<rparr>"
        and h_stat = "\<lparr>next_obj = 1, trace = [CreateProgram, LinkProgram (JObj KProgram 0),
                   GetProgramParameter (JObj KProgram 0) LINK_STATUS]\<rparr>"]
    unfolding s by (simp add: ref_simps)
qed

text \<open>
  C33: creation never blocks over the reference context: from every reachable state,
  \<open>glCreateBuffer\<close> returns the next handle, the state it reaches is reachable again, and the
  handle resolves to an object that was in no table before, so no handle ever aliases
  another.
\<close>

theorem create_buffer_always_fresh:
  assumes "reachable (ref_host ok log) s"
  shows "\<exists>s'. dispatch (ref_host ok log) buf OCreateBuffer s = (Inr (JNum (int (length (glBuffers s)))), s') \<and>
              reachable (ref_host ok log) s' \<and>
              js_index (glBuffers s') (int (length (glBuffers s))) \<notin> (\<Union>K. set (table K s))"
proof -
  have inv: "ref_inv s" using assms by (rule ref_inv_reachable)
  let ?v = "JObj KBuffer (next_obj (gl s))"
  obtain r s' where d: "dispatch (ref_host ok log) buf OCreateBuffer s = (r, s')"
    by (cases "dispatch (ref_host ok log) buf OCreateBuffer s")
  then have r: "r = Inr (JNum (int (length (glBuffers s))))" and b: "glBuffers s' = glBuffers s @ [?v]"
    by (auto simp: glCreateBuffer_def jsm_simps ref_host_def fresh_def js_push_def)
  have "?v \<notin> (\<Union>K. set (table K s))"
  proof
    assume "?v \<in> (\<Union>K. set (table K s))"
    then obtain K where "?v \<in> set (table K s)" by blast
    with inv have "issued K (gl s) ?v" by (simp add: ref_inv_iff)
    then show False by (simp add: issued_def)
  qed
  moreover have "reachable (ref_host ok log) s'" by (rule reachable.step [OF assms d])
  ultimately show ?thesis using d r b by (auto simp: js_index_def)
qed

theorem create_buffer_always_fresh_witness:
  "reachable H_ok ref_env \<and>
   (\<exists>s'. dispatch H_ok [] OCreateBuffer ref_env = (Inr (JNum 0), s') \<and> reachable H_ok s' \<and>
         js_index (glBuffers s') 0 \<notin> (\<Union>K. set (table K ref_env)))"
proof -
  have r0: "reachable H_ok ref_env" by (rule reachable.init [OF getWebGLEnv_ref])
  show ?thesis using create_buffer_always_fresh [OF r0, where buf = "[]"] r0 by (simp add: ref_env_def)
qed

end
